theory Spec2Isabelle
  imports Complex_Main "HOL-Library.Char_ord" "HOL-Library.List_Lexorder" "HOL-Library.Sublist"
begin

section \<open>Python dictionaries\<close>

text \<open>
  A Python \<open>dict\<close> keeps its keys in insertion order and holds every key once. It is
  modelled as an association list: \<open>dict_get\<close> is \<open>d.get(k)\<close>, \<open>dict_set\<close> is
  \<open>d[k] = v\<close> (an existing key keeps its position, a new key goes to the end) and
  \<open>dict_setdefault\<close> is \<open>d.setdefault(k, v)\<close>, which returns the stored value together
  with the dictionary. \<open>is_dict\<close> is the invariant that every key occurs once.
\<close>

type_synonym ('k, 'v) dict = "('k \<times> 'v) list"

fun dict_get :: "('k, 'v) dict \<Rightarrow> 'k \<Rightarrow> 'v option" where
  "dict_get [] k = None"
| "dict_get ((k', v) # d) k = (if k' = k then Some v else dict_get d k)"

fun dict_set :: "'k \<Rightarrow> 'v \<Rightarrow> ('k, 'v) dict \<Rightarrow> ('k, 'v) dict" where
  "dict_set k v [] = [(k, v)]"
| "dict_set k v ((k', v') # d) = (if k' = k then (k, v) # d else (k', v') # dict_set k v d)"

definition dict_setdefault :: "'k \<Rightarrow> 'v \<Rightarrow> ('k, 'v) dict \<Rightarrow> 'v \<times> ('k, 'v) dict" where
  "dict_setdefault k v d = (case dict_get d k of Some v' \<Rightarrow> (v', d) | None \<Rightarrow> (v, d @ [(k, v)]))"

definition dict_values :: "('k, 'v) dict \<Rightarrow> 'v list" where
  "dict_values d = map snd d"

definition is_dict :: "('k, 'v) dict \<Rightarrow> bool" where
  "is_dict d = distinct (map fst d)"

section \<open>models.py: the scrape state\<close>

text \<open>
  The dataclasses of \<open>card_scraper/models.py\<close>, with the field types of their annotations
  (\<open>Optional[str]\<close> is \<open>string option\<close>). The fields of \<open>SetInfo\<close> and
  \<open>CardDataBase\<close> carry a prefix, since \<open>id\<close> and \<open>name\<close> are taken in HOL and
  \<open>set_id\<close> is a field of \<open>SetScrapeState\<close> too.
\<close>

record SetInfo =
  si_id :: string
  si_name :: string
  si_category :: string

record CardDataBase =
  cd_id :: string
  cd_name :: string
  cd_image_url :: string
  cd_set_id :: string
  cd_source :: string
  cd_rarity :: string

record CardImageStatus =
  card_id :: string
  status :: string
  path :: "string option"
  error :: "string option"

record SetScrapeState =
  set_id :: string
  last_scraped :: "string option"
  card_ids :: "string list"
  images :: "(string, CardImageStatus) dict"

record ScrapeState =
  sets :: "(string, SetScrapeState) dict"

text \<open>\<open>SetScrapeState(set_id=set_id)\<close> and \<open>ScrapeState()\<close>: the dataclass defaults.\<close>

definition SetScrapeState_init :: "string \<Rightarrow> SetScrapeState" where
  "SetScrapeState_init sid = \<lparr>set_id = sid, last_scraped = None, card_ids = [], images = []\<rparr>"

definition ScrapeState_init :: ScrapeState where
  "ScrapeState_init = \<lparr>sets = []\<rparr>"

definition is_card_scraped :: "ScrapeState \<Rightarrow> string \<Rightarrow> string \<Rightarrow> bool" where
  "is_card_scraped st sid cid =
     (case dict_get (sets st) sid of
        None \<Rightarrow> False
      | Some ss \<Rightarrow> cid \<in> set (card_ids ss))"

definition is_image_downloaded :: "ScrapeState \<Rightarrow> string \<Rightarrow> string \<Rightarrow> bool" where
  "is_image_downloaded st sid cid =
     (case dict_get (sets st) sid of
        None \<Rightarrow> False
      | Some ss \<Rightarrow>
          (case dict_get (images ss) cid of
             None \<Rightarrow> False
           | Some img \<Rightarrow> status img = ''success''))"

text \<open>
  \<open>mark_card_scraped\<close> and \<open>mark_image\<close> mutate the \<open>SetScrapeState\<close> object that
  \<open>setdefault\<close> returned, which is the object stored under \<open>set_id\<close>: the model writes
  the changed record back under that key.
\<close>

definition mark_card_scraped :: "string \<Rightarrow> string \<Rightarrow> ScrapeState \<Rightarrow> ScrapeState" where
  "mark_card_scraped sid cid st =
     (case dict_setdefault sid (SetScrapeState_init sid) (sets st) of
        (ss, d) \<Rightarrow>
          if cid \<notin> set (card_ids ss)
          then st\<lparr>sets := dict_set sid (ss\<lparr>card_ids := card_ids ss @ [cid]\<rparr>) d\<rparr>
          else st\<lparr>sets := d\<rparr>)"

definition mark_image ::
  "string \<Rightarrow> string \<Rightarrow> string \<Rightarrow> string option \<Rightarrow> string option \<Rightarrow> ScrapeState \<Rightarrow> ScrapeState" where
  "mark_image sid cid stat pth err st =
     (case dict_setdefault sid (SetScrapeState_init sid) (sets st) of
        (ss, d) \<Rightarrow>
          st\<lparr>sets := dict_set sid
            (ss\<lparr>images := dict_set cid
               \<lparr>card_id = cid, status = stat, path = pth, error = err\<rparr> (images ss)\<rparr>) d\<rparr>)"

text \<open>The card-id list of a set, empty when the state has no entry for the set.\<close>

definition card_ids_of :: "ScrapeState \<Rightarrow> string \<Rightarrow> string list" where
  "card_ids_of st sid = (case dict_get (sets st) sid of None \<Rightarrow> [] | Some ss \<Rightarrow> card_ids ss)"

section \<open>state.py: the persisted state\<close>

text \<open>
  The values \<open>json.loads\<close> returns: \<open>None\<close>, booleans, numbers, strings, lists and
  dictionaries with string keys. A number is opaque here (no branch below tells an
  \<open>int\<close> from a \<open>float\<close>).
\<close>

datatype json =
  JNull
| JBool bool
| JNum int
| JStr string
| JArr "json list"
| JObj "(string \<times> json) list"

text \<open>The exceptions that occur, and sequencing of steps that may raise.\<close>

datatype py_error =
  JSONDecodeError
| UnicodeDecodeError
| KeyError
| TypeError
| AttributeError
| ValueError
| Exception string

definition then_do :: "py_error + 'a \<Rightarrow> ('a \<Rightarrow> py_error + 'b) \<Rightarrow> py_error + 'b" where
  "then_do m f = (case m of Inl e \<Rightarrow> Inl e | Inr x \<Rightarrow> f x)"

text \<open>
  \<open>x.get(k, default)\<close>, \<open>x.items()\<close> and \<open>x[k]\<close> for a string key \<open>k\<close>, on any value
  \<open>x\<close> that \<open>json.loads\<close> may have returned: only a dictionary has \<open>get\<close> and
  \<open>items\<close> (anything else raises \<open>AttributeError\<close>); subscripting a dictionary with
  a missing key raises \<open>KeyError\<close>, subscripting a list or a string with a string
  raises \<open>TypeError\<close>, and so does subscripting \<open>None\<close>, a boolean or a number.
\<close>

fun py_get :: "json \<Rightarrow> string \<Rightarrow> json \<Rightarrow> py_error + json" where
  "py_get (JObj d) k dflt = Inr (case dict_get d k of Some v \<Rightarrow> v | None \<Rightarrow> dflt)"
| "py_get _ k dflt = Inl AttributeError"

fun py_items :: "json \<Rightarrow> py_error + (string \<times> json) list" where
  "py_items (JObj d) = Inr d"
| "py_items _ = Inl AttributeError"

fun py_getitem :: "json \<Rightarrow> string \<Rightarrow> py_error + json" where
  "py_getitem (JObj d) k = (case dict_get d k of Some v \<Rightarrow> Inr v | None \<Rightarrow> Inl KeyError)"
| "py_getitem _ k = Inl TypeError"

text \<open>
  Python does not check the annotations of a dataclass: the objects that
  \<open>_deserialize_state\<close> builds hold, field by field, whatever values the document had.
  The records below are those objects, with fields of type \<open>json\<close>.
\<close>

record CardImageStatus_loaded =
  l_card_id :: json
  l_status :: json
  l_path :: json
  l_error :: json

record SetScrapeState_loaded =
  l_set_id :: json
  l_last_scraped :: json
  l_card_ids :: json
  l_images :: "(string, CardImageStatus_loaded) dict"

record ScrapeState_loaded =
  l_sets :: "(string, SetScrapeState_loaded) dict"

fun deserialize_images ::
  "(string \<times> json) list \<Rightarrow> (string, CardImageStatus_loaded) dict
     \<Rightarrow> py_error + (string, CardImageStatus_loaded) dict" where
  "deserialize_images [] imgs = Inr imgs"
| "deserialize_images ((cid, img_raw) # rest) imgs =
     then_do (py_getitem img_raw ''card_id'') (\<lambda>c.
     then_do (py_getitem img_raw ''status'') (\<lambda>s.
     then_do (py_get img_raw ''path'' JNull) (\<lambda>p.
     then_do (py_get img_raw ''error'' JNull) (\<lambda>e.
       deserialize_images rest
         (dict_set cid \<lparr>l_card_id = c, l_status = s, l_path = p, l_error = e\<rparr> imgs)))))"

fun deserialize_sets ::
  "(string \<times> json) list \<Rightarrow> (string, SetScrapeState_loaded) dict
     \<Rightarrow> py_error + (string, SetScrapeState_loaded) dict" where
  "deserialize_sets [] ssets = Inr ssets"
| "deserialize_sets ((sid, ss_raw) # rest) ssets =
     then_do (py_get ss_raw ''images'' (JObj [])) (\<lambda>im.
     then_do (py_items im) (\<lambda>items.
     then_do (deserialize_images items []) (\<lambda>imgs.
     then_do (py_get ss_raw ''set_id'' (JStr sid)) (\<lambda>i.
     then_do (py_get ss_raw ''last_scraped'' JNull) (\<lambda>l.
     then_do (py_get ss_raw ''card_ids'' (JArr [])) (\<lambda>cs.
       deserialize_sets rest
         (dict_set sid
            \<lparr>l_set_id = i, l_last_scraped = l, l_card_ids = cs, l_images = imgs\<rparr> ssets)))))))"

definition deserialize_state :: "json \<Rightarrow> py_error + ScrapeState_loaded" where
  "deserialize_state raw =
     then_do (py_get raw ''sets'' (JObj [])) (\<lambda>s.
     then_do (py_items s) (\<lambda>items.
     then_do (deserialize_sets items []) (\<lambda>ssets.
       Inr \<lparr>l_sets = ssets\<rparr>)))"

text \<open>\<open>_serialize_state\<close>, on a state whose fields have their annotated types.\<close>

definition json_of_optional :: "string option \<Rightarrow> json" where
  "json_of_optional x = (case x of None \<Rightarrow> JNull | Some s \<Rightarrow> JStr s)"

definition serialize_image :: "string \<times> CardImageStatus \<Rightarrow> string \<times> json" where
  "serialize_image = (\<lambda>(cid, img). (cid, JObj
     [(''card_id'', JStr (card_id img)),
      (''status'', JStr (status img)),
      (''path'', json_of_optional (path img)),
      (''error'', json_of_optional (error img))]))"

definition serialize_set :: "string \<times> SetScrapeState \<Rightarrow> string \<times> json" where
  "serialize_set = (\<lambda>(sid, ss). (sid, JObj
     [(''set_id'', JStr (set_id ss)),
      (''last_scraped'', json_of_optional (last_scraped ss)),
      (''card_ids'', JArr (map JStr (card_ids ss))),
      (''images'', JObj (map serialize_image (images ss)))]))"

definition serialize_state :: "ScrapeState \<Rightarrow> json" where
  "serialize_state st = JObj [(''sets'', JObj (map serialize_set (sets st)))]"

text \<open>
  The state file. Its text is identified with what \<open>read_text\<close> and \<open>json.loads\<close> make
  of it: bytes that are not UTF-8 (\<open>read_text\<close> raises \<open>UnicodeDecodeError\<close>), text
  that is not JSON (\<open>json.loads\<close> raises \<open>JSONDecodeError\<close>), or a JSON document.
  \<open>json.dumps\<close> followed by \<open>json.loads\<close> gives back the dictionaries, lists, strings
  and \<open>None\<close> it was given, so \<open>save\<close> leaves the document \<open>Json data\<close> in the file.
  A missing file is \<open>None\<close>.
\<close>

datatype file_content = NotUtf8 | NotJson | Json json

fun read_json :: "file_content \<Rightarrow> py_error + json" where
  "read_json NotUtf8 = Inl UnicodeDecodeError"
| "read_json NotJson = Inl JSONDecodeError"
| "read_json (Json j) = Inr j"

datatype log_record = LogInfo string | LogWarning string

text \<open>
  \<open>StateTracker._load\<close>: the state and the log records written. The \<open>except\<close> clause
  names \<open>JSONDecodeError\<close>, \<open>KeyError\<close> and \<open>TypeError\<close>; any other exception leaves
  \<open>_load\<close>.
\<close>

definition load :: "file_content option \<Rightarrow> py_error + (ScrapeState_loaded \<times> log_record list)" where
  "load file =
     (case file of
        None \<Rightarrow> Inr (\<lparr>l_sets = []\<rparr>, [LogInfo ''No state file, starting fresh''])
      | Some c \<Rightarrow>
          (case then_do (read_json c) deserialize_state of
             Inr st \<Rightarrow> Inr (st, [])
           | Inl e \<Rightarrow>
               if e = JSONDecodeError \<or> e = KeyError \<or> e = TypeError
               then Inr (\<lparr>l_sets = []\<rparr>, [LogWarning ''Corrupt state file, starting fresh''])
               else Inl e))"

text \<open>\<open>StateTracker.save\<close>: the content of the state file after the call.\<close>

definition save :: "ScrapeState \<Rightarrow> file_content option" where
  "save st = Some (Json (serialize_state st))"

text \<open>
  How a state with annotated field types sits in a loaded object (a string is a
  \<open>JStr\<close>, an absent optional is \<open>JNull\<close>, a list of strings is a \<open>JArr\<close> of
  \<open>JStr\<close>), and how a loaded object is read back when its values have those shapes.
\<close>

definition loaded_of_image :: "string \<times> CardImageStatus \<Rightarrow> string \<times> CardImageStatus_loaded" where
  "loaded_of_image = (\<lambda>(cid, img). (cid,
     \<lparr>l_card_id = JStr (card_id img), l_status = JStr (status img),
      l_path = json_of_optional (path img), l_error = json_of_optional (error img)\<rparr>))"

definition loaded_of_set :: "string \<times> SetScrapeState \<Rightarrow> string \<times> SetScrapeState_loaded" where
  "loaded_of_set = (\<lambda>(sid, ss). (sid,
     \<lparr>l_set_id = JStr (set_id ss), l_last_scraped = json_of_optional (last_scraped ss),
      l_card_ids = JArr (map JStr (card_ids ss)),
      l_images = map loaded_of_image (images ss)\<rparr>))"

definition loaded_of_state :: "ScrapeState \<Rightarrow> ScrapeState_loaded" where
  "loaded_of_state st = \<lparr>l_sets = map loaded_of_set (sets st)\<rparr>"

fun str_of_json :: "json \<Rightarrow> string option" where
  "str_of_json (JStr s) = Some s"
| "str_of_json _ = None"

fun optional_of_json :: "json \<Rightarrow> string option option" where
  "optional_of_json JNull = Some None"
| "optional_of_json (JStr s) = Some (Some s)"
| "optional_of_json _ = None"

fun all_some :: "'a option list \<Rightarrow> 'a list option" where
  "all_some [] = Some []"
| "all_some (None # xs) = None"
| "all_some (Some x # xs) = (case all_some xs of None \<Rightarrow> None | Some ys \<Rightarrow> Some (x # ys))"

fun strs_of_json :: "json \<Rightarrow> string list option" where
  "strs_of_json (JArr xs) = all_some (map str_of_json xs)"
| "strs_of_json _ = None"

definition image_of_loaded :: "string \<times> CardImageStatus_loaded \<Rightarrow> (string \<times> CardImageStatus) option" where
  "image_of_loaded = (\<lambda>(cid, img).
     (case (str_of_json (l_card_id img), str_of_json (l_status img),
            optional_of_json (l_path img), optional_of_json (l_error img)) of
        (Some c, Some s, Some p, Some e) \<Rightarrow>
          Some (cid, \<lparr>card_id = c, status = s, path = p, error = e\<rparr>)
      | _ \<Rightarrow> None))"

definition set_of_loaded :: "string \<times> SetScrapeState_loaded \<Rightarrow> (string \<times> SetScrapeState) option" where
  "set_of_loaded = (\<lambda>(sid, ss).
     (case (str_of_json (l_set_id ss), optional_of_json (l_last_scraped ss),
            strs_of_json (l_card_ids ss), all_some (map image_of_loaded (l_images ss))) of
        (Some i, Some l, Some cs, Some imgs) \<Rightarrow>
          Some (sid, \<lparr>set_id = i, last_scraped = l, card_ids = cs, images = imgs\<rparr>)
      | _ \<Rightarrow> None))"

definition state_of_loaded :: "ScrapeState_loaded \<Rightarrow> ScrapeState option" where
  "state_of_loaded st =
     (case all_some (map set_of_loaded (l_sets st)) of
        None \<Rightarrow> None
      | Some ss \<Rightarrow> Some \<lparr>sets = ss\<rparr>)"

text \<open>The dictionaries of a state are dictionaries: every key occurs once.\<close>

definition dicts_ok :: "ScrapeState \<Rightarrow> bool" where
  "dicts_ok st = (is_dict (sets st) \<and> list_all (\<lambda>(sid, ss). is_dict (images ss)) (sets st))"

section \<open>downloader.py: the image downloader\<close>

text \<open>
  String operations of \<open>_url_extension\<close>. \<open>before c s\<close> is \<open>s.split(c)[0]\<close> and
  \<open>after_last c s\<close> is \<open>s.split(c)[-1]\<close>, which is also \<open>s.rsplit(c, 1)[-1]\<close>.
  \<open>lower\<close> maps the letters A to Z to lower case; the white list holds ASCII letters
  only, so no other character can take part in a match.
\<close>

definition before :: "char \<Rightarrow> string \<Rightarrow> string" where
  "before c s = takeWhile (\<lambda>x. x \<noteq> c) s"

definition after_last :: "char \<Rightarrow> string \<Rightarrow> string" where
  "after_last c s = rev (takeWhile (\<lambda>x. x \<noteq> c) (rev s))"

definition lower_char :: "char \<Rightarrow> char" where
  "lower_char c =
     (case dict_get (zip ''ABCDEFGHIJKLMNOPQRSTUVWXYZ'' ''abcdefghijklmnopqrstuvwxyz'') c of
        Some l \<Rightarrow> l
      | None \<Rightarrow> c)"

definition lower :: "string \<Rightarrow> string" where
  "lower s = map lower_char s"

definition url_extension :: "string \<Rightarrow> string" where
  "url_extension url =
     (let p = before (CHR ''#'') (before (CHR ''?'') url) in
      if CHR ''.'' \<in> set (after_last (CHR ''/'') p)
      then (let ext = lower (after_last (CHR ''.'') p) in
            if ext \<in> set [''jpg'', ''jpeg'', ''png'', ''webp'', ''gif''] then ext else ''jpg'')
      else ''jpg'')"

text \<open>The decimal text of an integer, as an f-string prints it.\<close>

fun str_nat :: "nat \<Rightarrow> string" where
  "str_nat n =
     (if n < 10 then [''0123456789'' ! n]
      else str_nat (n div 10) @ [''0123456789'' ! (n mod 10)])"

declare str_nat.simps [simp del]

definition str_int :: "int \<Rightarrow> string" where
  "str_int i = (if i < 0 then CHR ''-'' # str_nat (nat (- i)) else str_nat (nat i))"

text \<open>\<open>CardData\<close> of \<open>onepiece_scraper/models.py\<close>.\<close>

record CardData =
  oc_id :: string
  oc_name :: string
  oc_card_type :: string
  oc_cost :: "int option"
  oc_power :: "int option"
  oc_counter :: "int option"
  oc_colors :: "string list"
  oc_rarity :: string
  oc_traits :: "string list"
  oc_text :: string
  oc_life :: "int option"
  oc_image_url :: string
  oc_set_id :: string
  oc_source :: string

definition MAX_RETRIES :: int where
  "MAX_RETRIES = 3"

definition BACKOFF_BASE :: real where
  "BACKOFF_BASE = 1"

text \<open>
  The downloader object: the output directory, the concurrency ceiling of its
  semaphore and the retry count. \<open>ImageDownloader_init\<close> is the constructor; an
  argument left out (\<open>None\<close>) takes the default of the signature.
\<close>

record ImageDownloader =
  output_dir :: string
  concurrency :: int
  max_retries :: int

definition ImageDownloader_init :: "string \<Rightarrow> int option \<Rightarrow> int option \<Rightarrow> ImageDownloader" where
  "ImageDownloader_init out conc retries =
     \<lparr>output_dir = out,
      concurrency = (case conc of None \<Rightarrow> 5 | Some c \<Rightarrow> c),
      max_retries = (case retries of None \<Rightarrow> MAX_RETRIES | Some r \<Rightarrow> r)\<rparr>"

text \<open>
  A path is the list of the segments it is built from with \<open>/\<close>. The file system
  maps the paths that exist to their content. Directories are not tracked:
  \<open>mkdir(parents=True, exist_ok=True)\<close> is taken to succeed and changes nothing that
  is observed here.
\<close>

type_synonym fspath = "string list"

definition image_path :: "ImageDownloader \<Rightarrow> string \<Rightarrow> string \<Rightarrow> string \<Rightarrow> fspath" where
  "image_path d sid cid ext = [output_dir d, sid, ''cards'', cid @ CHR ''.'' # ext]"

text \<open>
  What one run of the \<open>try\<close> body meets: \<open>client.get\<close> raises (a transport error),
  \<open>raise_for_status\<close> raises (a status that is not 2xx), or the response is good and
  carries its content. The two failures carry the text of the exception.
\<close>

datatype http_result =
  TransportError string
| StatusError nat string
| Ok string

fun exc_text :: "http_result \<Rightarrow> string" where
  "exc_text (TransportError t) = t"
| "exc_text (StatusError code t) = t"
| "exc_text (Ok content) = []"

fun is_failure :: "http_result \<Rightarrow> bool" where
  "is_failure (Ok content) = False"
| "is_failure _ = True"

text \<open>
  The world of a download: the files, and the log of what the downloader did, in
  order. The network is an oracle \<open>net\<close>: \<open>net n url\<close> is what the request for \<open>url\<close>
  meets when \<open>n\<close> requests were made before it.
\<close>

datatype io_event = HttpGet string | Sleep real | WriteBytes fspath

record world =
  files :: "fspath \<rightharpoonup> string"
  events :: "io_event list"

fun is_request :: "io_event \<Rightarrow> bool" where
  "is_request (HttpGet url) = True"
| "is_request _ = False"

definition requests :: "world \<Rightarrow> nat" where
  "requests w = length (filter is_request (events w))"

definition image_exists :: "ImageDownloader \<Rightarrow> world \<Rightarrow> string \<Rightarrow> string \<Rightarrow> string \<Rightarrow> bool" where
  "image_exists d w sid cid ext = (files w (image_path d sid cid ext) \<noteq> None)"

text \<open>
  The loop \<open>for attempt in range(1, self._max_retries + 1)\<close>, entered with the next
  value of \<open>attempt\<close>. The statement after the loop is reached when the range is empty.
\<close>

function attempt_loop ::
  "ImageDownloader \<Rightarrow> (nat \<Rightarrow> string \<Rightarrow> http_result) \<Rightarrow> CardData \<Rightarrow> string \<Rightarrow> fspath \<Rightarrow> int
     \<Rightarrow> world \<Rightarrow> (bool \<times> string option) \<times> world" where
  "attempt_loop d net crd url dest attempt w =
     (if max_retries d < attempt then ((False, Some ''Unknown error''), w)
      else
        (let r = net (requests w) url;
             w1 = w\<lparr>events := events w @ [HttpGet url]\<rparr>
         in case r of
              Ok content \<Rightarrow>
                ((True, None),
                 w1\<lparr>files := (files w1)(dest \<mapsto> content),
                    events := events w1 @ [WriteBytes dest]\<rparr>)
            | _ \<Rightarrow>
                if attempt < max_retries d
                then attempt_loop d net crd url dest (attempt + 1)
                       (w1\<lparr>events := events w1 @ [Sleep (BACKOFF_BASE * 2 ^ nat (attempt - 1))]\<rparr>)
                else ((False,
                       Some (''Failed after '' @ str_int (max_retries d) @ '' attempts: ''
                             @ exc_text r)), w1)))"
  by pat_completeness auto

termination
  by (relation "measure (\<lambda>(d, net, crd, url, dest, attempt, w). nat (max_retries d + 1 - attempt))")
     auto

declare attempt_loop.simps [simp del]

definition download_card_image ::
  "ImageDownloader \<Rightarrow> (nat \<Rightarrow> string \<Rightarrow> http_result) \<Rightarrow> CardData \<Rightarrow> string \<Rightarrow> world
     \<Rightarrow> (bool \<times> string option) \<times> world" where
  "download_card_image d net crd image_url w =
     (if image_url = [] then ((False, Some ''No image URL''), w)
      else
        (let ext = url_extension image_url;
             dest = image_path d (oc_set_id crd) (oc_id crd) ext
         in if files w dest \<noteq> None then ((True, None), w)
            else attempt_loop d net crd image_url dest 1 w))"

text \<open>
  For the statement on retries: the requests and sleeps of a download in which every
  attempt from \<open>attempt\<close> to \<open>retries\<close> fails, in order.
\<close>

function retry_events :: "string \<Rightarrow> int \<Rightarrow> int \<Rightarrow> io_event list" where
  "retry_events url attempt retries =
     (if attempt < retries
      then HttpGet url # Sleep (BACKOFF_BASE * 2 ^ nat (attempt - 1))
             # retry_events url (attempt + 1) retries
      else [HttpGet url])"
  by pat_completeness auto
termination
  by (relation "measure (\<lambda>(url, attempt, retries). nat (retries - attempt))") auto

declare retry_events.simps [simp del]

section \<open>Concrete inputs: a card and a world\<close>

text \<open>A card and a world used as concrete inputs below.\<close>

definition card_OP01_001 :: CardData where
  "card_OP01_001 =
     \<lparr>oc_id = ''OP01-001'', oc_name = ''Roronoa Zoro'', oc_card_type = ''leader'',
      oc_cost = None, oc_power = Some 5000, oc_counter = None, oc_colors = [''Red''],
      oc_rarity = ''L'', oc_traits = [''Supernovas''], oc_text = [], oc_life = Some 5,
      oc_image_url = ''https://example.org/img/OP01-001.png'', oc_set_id = ''OP-01'',
      oc_source = ''optcg-api''\<rparr>"

definition empty_world :: world where
  "empty_world = \<lparr>files = Map.empty, events = []\<rparr>"

section \<open>scraper.py: configuration and adapters\<close>

text \<open>
  \<open>ScrapeConfig\<close> of \<open>card_scraper/config.py\<close>, with the four fields it declares.
  \<open>ScrapeConfig_getattr\<close> is attribute access by name on such an object: a declared
  field gives its value, any other name raises \<open>AttributeError\<close>.
\<close>

record ScrapeConfig =
  sc_sets :: string
  sc_categories :: "string list option"
  sc_include_starters :: bool
  sc_include_tokens :: bool

definition ScrapeConfig_getattr :: "ScrapeConfig \<Rightarrow> string \<Rightarrow> py_error + json" where
  "ScrapeConfig_getattr c a =
     (if a = ''sets'' then Inr (JStr (sc_sets c))
      else if a = ''categories''
        then Inr (case sc_categories c of None \<Rightarrow> JNull | Some cs \<Rightarrow> JArr (map JStr cs))
      else if a = ''include_starters'' then Inr (JBool (sc_include_starters c))
      else if a = ''include_tokens'' then Inr (JBool (sc_include_tokens c))
      else Inl AttributeError)"

text \<open>The truth value of a Python value in an \<open>if\<close>.\<close>

fun truthy :: "json \<Rightarrow> bool" where
  "truthy JNull = False"
| "truthy (JBool b) = b"
| "truthy (JNum n) = (n \<noteq> 0)"
| "truthy (JStr s) = (s \<noteq> [])"
| "truthy (JArr xs) = (xs \<noteq> [])"
| "truthy (JObj d) = (d \<noteq> [])"

text \<open>
  What the scraper reads of \<open>AppConfig\<close>: the game, the scrape settings of the active
  game, the value of the property \<open>set_filter\<close>, and the output settings.
\<close>

record AppConfig =
  game :: string
  scrape :: ScrapeConfig
  cfg_set_filter :: "string list option"
  base_dir :: string
  manifest_version :: string

text \<open>
  An adapter, as the scraper uses it: its name, what \<open>list_sets()\<close> returns or raises,
  what \<open>get_cards(set_id)\<close> returns or raises, and \<open>get_image_url\<close>.
\<close>

record adapter =
  a_name :: string
  list_sets :: "py_error + SetInfo list"
  get_cards :: "string \<Rightarrow> py_error + CardDataBase list"
  get_image_url :: "CardDataBase \<Rightarrow> string"

section \<open>scraper.py: discovering sets\<close>

text \<open>The loop \<open>for s in sets: if s.id not in all_sets: all_sets[s.id] = s\<close>.\<close>

fun merge_sets :: "SetInfo list \<Rightarrow> (string, SetInfo) dict \<Rightarrow> (string, SetInfo) dict" where
  "merge_sets [] all_sets = all_sets"
| "merge_sets (s # ss) all_sets =
     merge_sets ss
       (if dict_get all_sets (si_id s) = None then dict_set (si_id s) s all_sets else all_sets)"

text \<open>The loop over the adapters; an adapter whose \<open>list_sets\<close> raises is skipped.\<close>

fun discover_adapters :: "adapter list \<Rightarrow> (string, SetInfo) dict \<Rightarrow> (string, SetInfo) dict" where
  "discover_adapters [] all_sets = all_sets"
| "discover_adapters (a # as) all_sets =
     discover_adapters as
       (case list_sets a of
          Inl exc \<Rightarrow> all_sets
        | Inr ss \<Rightarrow> merge_sets ss all_sets)"

text \<open>\<open>f"{i:02d}"\<close>, and the loop \<open>for i in range(1, 20)\<close> that adds the starter decks.\<close>

definition pad2 :: "nat \<Rightarrow> string" where
  "pad2 i = (if i < 10 then CHR ''0'' # str_nat i else str_nat i)"

definition add_starter :: "(string, SetInfo) dict \<Rightarrow> nat \<Rightarrow> (string, SetInfo) dict" where
  "add_starter all_sets i =
     (let sid = ''ST-'' @ pad2 i in
      if dict_get all_sets sid = None
      then dict_set sid
             \<lparr>si_id = sid, si_name = ''Starter Deck '' @ pad2 i, si_category = ''starter''\<rparr> all_sets
      else all_sets)"

definition add_promo :: "(string, SetInfo) dict \<Rightarrow> (string, SetInfo) dict" where
  "add_promo all_sets =
     (if dict_get all_sets ''PROMO'' = None
      then dict_set ''PROMO''
             \<lparr>si_id = ''PROMO'', si_name = ''Promo Cards'', si_category = ''promo''\<rparr> all_sets
      else all_sets)"

text \<open>
  \<open>Scraper._discover_sets\<close>. The synthetic entries are added for the game
  \<open>onepiece\<close>; the settings are read from the scrape configuration by attribute name.
  \<open>sorted(..., key=lambda s: s.id)\<close> is a stable sort on the ids, which Python compares
  character by character.
\<close>

definition discover_sets :: "AppConfig \<Rightarrow> adapter list \<Rightarrow> py_error + SetInfo list" where
  "discover_sets cfg adapters =
     (let all_sets = discover_adapters adapters [] in
      if game cfg = ''onepiece''
      then
        then_do (ScrapeConfig_getattr (scrape cfg) ''include_starters'') (\<lambda>starters.
          let all_sets1 = (if truthy starters then foldl add_starter all_sets [1..<20]
                           else all_sets)
          in then_do (ScrapeConfig_getattr (scrape cfg) ''include_promos'') (\<lambda>promos.
               let all_sets2 = (if truthy promos then add_promo all_sets1 else all_sets1)
               in Inr (sort_key si_id (dict_values all_sets2))))
      else Inr (sort_key si_id (dict_values all_sets)))"

section \<open>scraper.py: fetching the cards of a set\<close>

text \<open>
  The adapter calls that a fetch makes are returned with its result, in order.
\<close>

datatype adapter_call = GetCards string string

text \<open>The deduplication loop, with its \<open>seen\<close> set and its \<open>unique\<close> list.\<close>

fun dedup_loop :: "CardDataBase list \<Rightarrow> string set \<Rightarrow> CardDataBase list \<Rightarrow> CardDataBase list" where
  "dedup_loop [] seen unique = unique"
| "dedup_loop (c # cs) seen unique =
     (if cd_id c \<notin> seen then dedup_loop cs (insert (cd_id c) seen) (unique @ [c])
      else dedup_loop cs seen unique)"

text \<open>
  \<open>Scraper._fetch_cards\<close>: the loop over the adapters. A call that raises is logged
  and the loop goes on, as it does after an empty list.
\<close>

fun fetch_cards :: "adapter list \<Rightarrow> string \<Rightarrow> bool \<Rightarrow> CardDataBase list \<times> adapter_call list" where
  "fetch_cards [] sid force = ([], [])"
| "fetch_cards (a # as) sid force =
     (case get_cards a sid of
        Inl exc \<Rightarrow>
          (case fetch_cards as sid force of
             (cards, calls) \<Rightarrow> (cards, GetCards (a_name a) sid # calls))
      | Inr cards \<Rightarrow>
          if cards \<noteq> [] then (dedup_loop cards {} [], [GetCards (a_name a) sid])
          else
            (case fetch_cards as sid force of
               (cards', calls) \<Rightarrow> (cards', GetCards (a_name a) sid # calls)))"

text \<open>
  The specification's words, for comparison: what an adapter yields when a raise counts as
  the empty list, and the list with the first occurrence of every card id kept.
\<close>

definition yields :: "adapter \<Rightarrow> string \<Rightarrow> CardDataBase list" where
  "yields a sid = (case get_cards a sid of Inl exc \<Rightarrow> [] | Inr cards \<Rightarrow> cards)"

fun first_occurrences :: "CardDataBase list \<Rightarrow> CardDataBase list" where
  "first_occurrences [] = []"
| "first_occurrences (c # cs) = c # first_occurrences (filter (\<lambda>x. cd_id x \<noteq> cd_id c) cs)"

section \<open>Concrete inputs: adapters and cards\<close>

text \<open>Adapters and cards used as concrete inputs below.\<close>

definition a_card :: "string \<Rightarrow> string \<Rightarrow> string \<Rightarrow> CardDataBase" where
  "a_card cid nm src =
     \<lparr>cd_id = cid, cd_name = nm, cd_image_url = ''https://example.org/img/'' @ cid @ ''.jpg'',
      cd_set_id = ''OP-01'', cd_source = src, cd_rarity = ''C''\<rparr>"

definition an_adapter ::
  "string \<Rightarrow> py_error + SetInfo list \<Rightarrow> py_error + CardDataBase list \<Rightarrow> adapter" where
  "an_adapter nm ss cards =
     \<lparr>a_name = nm, list_sets = ss, get_cards = (\<lambda>sid. cards), get_image_url = cd_image_url\<rparr>"

section \<open>The image downloader of \<open>card_scraper\<close>\<close>

text \<open>
  Modelled from the spec: \<open>card_scraper/downloader.py\<close> is missing from the sources,
  and with it \<open>ImageDownloader.image_path\<close>, which the scraper calls with a set id
  and a card id. Section 4.4 of the specification derives the destination from the
  set id, the card id and an extension guessed from the URL, with \<open>jpg\<close> when there
  is none. The scraper passes no URL and no extension, so the extension is the
  default: this is \<open>image_path\<close> of the sibling \<open>onepiece_scraper/downloader.py\<close>
  with its default argument.
\<close>

definition cs_image_path :: "ImageDownloader \<Rightarrow> string \<Rightarrow> string \<Rightarrow> fspath" where
  "cs_image_path d sid cid = image_path d sid cid ''jpg''"

text \<open>
  Modelled from the spec: \<open>ImageDownloader.image_exists\<close> of the missing
  \<open>card_scraper/downloader.py\<close>, called by the scraper with a set id and a card id:
  whether the file at \<open>cs_image_path\<close> exists, as in the sibling module.
\<close>

definition cs_image_exists :: "ImageDownloader \<Rightarrow> world \<Rightarrow> string \<Rightarrow> string \<Rightarrow> bool" where
  "cs_image_exists d w sid cid = (files w (cs_image_path d sid cid) \<noteq> None)"




section \<open>scraper.py: the pipeline run\<close>

text \<open>
  What a run does that can be observed: the lines it prints, the adapter calls of the
  fetch stage, the download batches (by card ids), the manifests it has generated
  (the root manifest by the set ids it lists, a set manifest by its set id and card
  ids) and the state it saves. The manifest generators and the console are outside
  the scraper and appear as these events only.
\<close>

datatype run_event =
  Print string
| Fetch adapter_call
| DownloadBatch "string list"
| GenRoot "string list"
| GenSet string "string list"
| SaveState ScrapeState

text \<open>
  The state of a run: \<open>tracker\<close> is the field \<open>_state\<close> of the state tracker
  (\<open>None\<close> until the state is first read), \<open>rworld\<close> the file system with the
  downloader's log, \<open>trace\<close> the events so far.
\<close>

record run_state =
  tracker :: "ScrapeState option"
  rworld :: world
  trace :: "run_event list"

text \<open>
  What a run is given: the configuration, the adapters that \<open>setup\<close> loaded (in
  priority order), the downloader, what \<open>StateTracker._load\<close> returns or raises for
  the state file (for a file whose values have the annotated types), the clock
  (\<open>env_now sid\<close> is the timestamp read after the cards of \<open>sid\<close> were fetched), and
  \<open>download_batch\<close>, which is any function from the cards, the URL resolver and the
  world to the two counts and the new world. \<open>env_str_path\<close> is \<open>str\<close> on a path: how
  \<open>pathlib\<close> prints a path is not modelled.
\<close>

record run_env =
  env_config :: AppConfig
  env_adapters :: "adapter list"
  env_downloader :: ImageDownloader
  env_load :: "py_error + ScrapeState"
  env_now :: "string \<Rightarrow> string"
  env_batch :: "CardDataBase list \<Rightarrow> (CardDataBase \<Rightarrow> string) \<Rightarrow> world \<Rightarrow> (nat \<times> nat) \<times> world"
  env_str_path :: "fspath \<Rightarrow> string"

text \<open>The property \<open>StateTracker.state\<close>: the state is loaded when first read.\<close>

definition get_state :: "run_env \<Rightarrow> run_state \<Rightarrow> py_error + ScrapeState" where
  "get_state env rs = (case tracker rs of Some st \<Rightarrow> Inr st | None \<Rightarrow> env_load env)"

definition say :: "string \<Rightarrow> run_state \<Rightarrow> run_state" where
  "say msg rs = rs\<lparr>trace := trace rs @ [Print msg]\<rparr>"

fun join :: "string \<Rightarrow> string list \<Rightarrow> string" where
  "join sep [] = []"
| "join sep [x] = x"
| "join sep (x # xs) = x @ sep @ join sep xs"

subsection \<open>The fetch stage\<close>

fun mark_cards :: "string \<Rightarrow> CardDataBase list \<Rightarrow> ScrapeState \<Rightarrow> ScrapeState" where
  "mark_cards sid [] st = st"
| "mark_cards sid (c # cs) st = mark_cards sid cs (mark_card_scraped sid (cd_id c) st)"

text \<open>\<open>state.sets[set_id].last_scraped = ts\<close>; a missing key raises \<open>KeyError\<close>.\<close>

definition set_last_scraped :: "string \<Rightarrow> string \<Rightarrow> ScrapeState \<Rightarrow> py_error + ScrapeState" where
  "set_last_scraped sid ts st =
     (case dict_get (sets st) sid of
        None \<Rightarrow> Inl KeyError
      | Some ss \<Rightarrow> Inr (st\<lparr>sets := dict_set sid (ss\<lparr>last_scraped := Some ts\<rparr>) (sets st)\<rparr>))"

fun fetch_stage ::
  "run_env \<Rightarrow> bool \<Rightarrow> SetInfo list \<Rightarrow> (string, CardDataBase list) dict \<Rightarrow> run_state
     \<Rightarrow> py_error + ((string, CardDataBase list) dict \<times> run_state)" where
  "fetch_stage env force [] all_cards rs = Inr (all_cards, rs)"
| "fetch_stage env force (set_info # rest) all_cards rs =
     (case fetch_cards (env_adapters env) (si_id set_info) force of
        (cards, calls) \<Rightarrow>
          (let rs1 = rs\<lparr>trace := trace rs @ map Fetch calls\<rparr> in
           if cards \<noteq> []
           then
             then_do (get_state env rs1) (\<lambda>st.
             then_do (set_last_scraped (si_id set_info) (env_now env (si_id set_info))
                        (mark_cards (si_id set_info) cards st)) (\<lambda>st'.
               fetch_stage env force rest (dict_set (si_id set_info) cards all_cards)
                 (rs1\<lparr>tracker := Some st'\<rparr>)))
           else fetch_stage env force rest all_cards rs1))"

subsection \<open>The download stage\<close>

text \<open>\<open>Scraper._get_best_image_url\<close>.\<close>

definition get_best_image_url :: "adapter list \<Rightarrow> CardDataBase \<Rightarrow> string" where
  "get_best_image_url adapters c =
     (case find (\<lambda>a. a_name a = cd_source c) adapters of
        Some a \<Rightarrow> get_image_url a c
      | None \<Rightarrow> cd_image_url c)"

text \<open>
  The pending subset \<open>to_download\<close> of a set: all its cards in force mode, otherwise
  the cards whose image the state does not record as downloaded (which reads the
  state).
\<close>

definition to_download_of ::
  "run_env \<Rightarrow> bool \<Rightarrow> string \<Rightarrow> CardDataBase list \<Rightarrow> run_state
     \<Rightarrow> py_error + (CardDataBase list \<times> run_state)" where
  "to_download_of env force sid cards rs =
     (if force then Inr (cards, rs)
      else then_do (get_state env rs) (\<lambda>st.
             Inr (filter (\<lambda>c. \<not> is_image_downloaded st sid (cd_id c)) cards,
                  rs\<lparr>tracker := Some st\<rparr>)))"

text \<open>
  The loop after the batch: every card of \<open>to_download\<close> is marked by what
  \<open>self._downloader.image_exists(set_id, card.id)\<close> says in the world \<open>w\<close> that the
  batch left; the path recorded is \<open>str(self._downloader.image_path(set_id, card.id))\<close>,
  with \<open>pstr\<close> for \<open>str\<close>.
\<close>

fun mark_images ::
  "ImageDownloader \<Rightarrow> (fspath \<Rightarrow> string) \<Rightarrow> world \<Rightarrow> string \<Rightarrow> CardDataBase list
     \<Rightarrow> ScrapeState \<Rightarrow> ScrapeState" where
  "mark_images d pstr w sid [] st = st"
| "mark_images d pstr w sid (c # cs) st =
     mark_images d pstr w sid cs
       (if cs_image_exists d w sid (cd_id c)
        then mark_image sid (cd_id c) ''success''
               (Some (pstr (cs_image_path d sid (cd_id c)))) None st
        else mark_image sid (cd_id c) ''failed'' None None st)"

text \<open>The body of the loop over \<open>all_cards.items()\<close>, for one set.\<close>

definition download_set ::
  "run_env \<Rightarrow> bool \<Rightarrow> string \<times> CardDataBase list \<Rightarrow> run_state
     \<Rightarrow> py_error + ((nat \<times> nat) \<times> run_state)" where
  "download_set env force item rs =
     (case item of (sid, cards) \<Rightarrow>
        then_do (to_download_of env force sid cards rs) (\<lambda>(to_download, rs1).
          if to_download = [] then Inr ((0, 0), rs1)
          else
            (case env_batch env to_download (get_best_image_url (env_adapters env)) (rworld rs1) of
               (counts, w') \<Rightarrow>
                 then_do (get_state env rs1) (\<lambda>st.
                   Inr (counts,
                        rs1\<lparr>tracker :=
                              Some (mark_images (env_downloader env) (env_str_path env) w' sid
                                      to_download st),
                            rworld := w',
                            trace := trace rs1 @ [DownloadBatch (map cd_id to_download)]\<rparr>)))))"

fun download_stage ::
  "run_env \<Rightarrow> bool \<Rightarrow> (string, CardDataBase list) dict \<Rightarrow> nat \<times> nat \<Rightarrow> run_state
     \<Rightarrow> py_error + ((nat \<times> nat) \<times> run_state)" where
  "download_stage env force [] totals rs = Inr (totals, rs)"
| "download_stage env force (item # rest) totals rs =
     then_do (download_set env force item rs) (\<lambda>(counts, rs').
       download_stage env force rest (fst totals + fst counts, snd totals + snd counts) rs')"

subsection \<open>Manifests, saving, and the whole run\<close>

text \<open>\<open>_get_manifest_generators\<close> raises \<open>ValueError\<close> for a game it does not know.\<close>

definition get_manifest_generators :: "string \<Rightarrow> py_error + unit" where
  "get_manifest_generators g =
     (if g = ''onepiece'' then Inr () else if g = ''mtg'' then Inr () else Inl ValueError)"

definition manifest_stage ::
  "AppConfig \<Rightarrow> SetInfo list \<Rightarrow> (string, CardDataBase list) dict \<Rightarrow> run_state
     \<Rightarrow> py_error + run_state" where
  "manifest_stage cfg all_sets all_cards rs =
     then_do (get_manifest_generators (game cfg)) (\<lambda>gens.
       let sets_with_cards = filter (\<lambda>s. dict_get all_cards (si_id s) \<noteq> None) all_sets
       in Inr (rs\<lparr>trace := trace rs @
                 GenRoot (map si_id sets_with_cards) #
                 map (\<lambda>s. GenSet (si_id s)
                        (map cd_id (case dict_get all_cards (si_id s) of
                                      Some cs \<Rightarrow> cs | None \<Rightarrow> [])))
                   sets_with_cards\<rparr>))"

definition save_state :: "run_env \<Rightarrow> run_state \<Rightarrow> py_error + run_state" where
  "save_state env rs =
     then_do (get_state env rs) (\<lambda>st.
       Inr (rs\<lparr>tracker := Some st, trace := trace rs @ [SaveState st]\<rparr>))"

text \<open>
  \<open>set_filter or self._config.set_filter\<close>: the argument when it is a non-empty list,
  the configured filter otherwise.
\<close>

definition filter_ids_of :: "string list option \<Rightarrow> AppConfig \<Rightarrow> string list option" where
  "filter_ids_of set_filter cfg =
     (case set_filter of
        Some (f # fs) \<Rightarrow> Some (f # fs)
      | _ \<Rightarrow> cfg_set_filter cfg)"

text \<open>The first step of \<open>run\<close>: in force mode the tracker is reset.\<close>

definition force_reset :: "bool \<Rightarrow> run_state \<Rightarrow> run_state" where
  "force_reset force rs =
     (if force
      then (say ''[yellow]Force mode: ignoring previous state[/yellow]'' rs)
             \<lparr>tracker := Some ScrapeState_init\<rparr>
      else rs)"

text \<open>
  \<open>Scraper.run\<close>. \<open>Inl\<close> is an exception that leaves \<open>run\<close>; \<open>Inr\<close> is the state when
  \<open>run\<close> returns.
\<close>

definition run :: "run_env \<Rightarrow> bool \<Rightarrow> string list option \<Rightarrow> run_state \<Rightarrow> py_error + run_state" where
  "run env force set_filter rs0 =
     (let cfg = env_config env;
          rs1 = force_reset force rs0;
          rs2 = say (''\<newline>[bold]Discovering sets for '' @ game cfg @ ''...[/bold]'') rs1
      in then_do (discover_sets cfg (env_adapters env)) (\<lambda>discovered.
           if discovered = [] then Inr (say ''[red]No sets found from any adapter[/red]'' rs2)
           else
             (let all_sets =
                    (case filter_ids_of set_filter cfg of
                       Some (f # fs) \<Rightarrow> filter (\<lambda>s. si_id s \<in> set (f # fs)) discovered
                     | _ \<Rightarrow> discovered);
                  rs3 =
                    (case filter_ids_of set_filter cfg of
                       Some (f # fs) \<Rightarrow>
                         say (''Filtered to '' @ str_nat (length all_sets) @ '' sets: ''
                              @ join '', '' (map si_id all_sets)) rs2
                     | _ \<Rightarrow> say (''Found '' @ str_nat (length all_sets) @ '' sets'') rs2);
                  rs4 = say ''\<newline>[bold]Fetching card data...[/bold]'' rs3
              in then_do (fetch_stage env force all_sets [] rs4) (\<lambda>(all_cards, rs5).
                   let rs6 = say (''Fetched '' @ str_nat (sum_list (map (length \<circ> snd) all_cards))
                                  @ '' cards across '' @ str_nat (length all_cards) @ '' sets'') rs5;
                       rs7 = say ''\<newline>[bold]Downloading images...[/bold]'' rs6
                   in then_do (download_stage env force all_cards (0, 0) rs7) (\<lambda>(totals, rs8).
                        let rs9 = say (''Images: [green]'' @ str_nat (fst totals)
                                       @ '' downloaded[/green], [red]'' @ str_nat (snd totals)
                                       @ '' failed[/red]'') rs8;
                            rs10 = say ''\<newline>[bold]Generating manifests...[/bold]'' rs9
                        in then_do (manifest_stage cfg all_sets all_cards rs10) (\<lambda>rs11.
                           then_do (save_state env rs11) (\<lambda>rs12.
                             Inr (say ''\<newline>[bold green]Scrape complete![/bold green]'' rs12))))))))"

section \<open>Reading the state, and concrete inputs for a run\<close>

text \<open>The image entry that the state holds for a card of a set, if any.\<close>

definition image_of :: "ScrapeState \<Rightarrow> string \<Rightarrow> string \<Rightarrow> CardImageStatus option" where
  "image_of st sid cid =
     (case dict_get (sets st) sid of None \<Rightarrow> None | Some ss \<Rightarrow> dict_get (images ss) cid)"

text \<open>
  A configuration and an environment used as concrete inputs below. The state file
  is missing, the batch of \<open>env_for\<close> downloads nothing and reports every card as
  failed, and a path is printed with its segments joined by slashes, which is what
  \<open>str\<close> gives for the segments used here.
\<close>

definition default_scrape :: ScrapeConfig where
  "default_scrape =
     \<lparr>sc_sets = ''all'', sc_categories = None, sc_include_starters = True,
      sc_include_tokens = False\<rparr>"

definition config_for :: "string \<Rightarrow> AppConfig" where
  "config_for g =
     \<lparr>game = g, scrape = default_scrape, cfg_set_filter = None, base_dir = ''./output/'',
      manifest_version = ''1.0''\<rparr>"

definition env_for :: "string \<Rightarrow> adapter list \<Rightarrow> run_env" where
  "env_for g adapters =
     \<lparr>env_config = config_for g, env_adapters = adapters,
      env_downloader = ImageDownloader_init ''output'' None None,
      env_load = Inr ScrapeState_init,
      env_now = (\<lambda>sid. ''2024-01-01T00:00:00+00:00''),
      env_batch = (\<lambda>cards get_url w. ((0, length cards), w)),
      env_str_path = join ''/''\<rparr>"

definition start :: run_state where
  "start = \<lparr>tracker = None, rworld = empty_world, trace = []\<rparr>"



text \<open>
  For the statements on discovery: the sets an adapter lists when a raise counts as
  the empty list, and the invariant of the \<open>all_sets\<close> dictionary (every key once,
  every set stored under its own id).
\<close>

definition listed :: "adapter \<Rightarrow> SetInfo list" where
  "listed a = (case list_sets a of Inl exc \<Rightarrow> [] | Inr ss \<Rightarrow> ss)"

definition keyed :: "(string, SetInfo) dict \<Rightarrow> bool" where
  "keyed d = (distinct (map fst d) \<and> list_all (\<lambda>(k, v). si_id v = k) d)"

text \<open>
  The events of a run for game \<open>g\<close> that finds sets, filters them down to none and
  saves the state \<open>st\<close>.
\<close>

definition empty_filter_trace :: "string \<Rightarrow> ScrapeState \<Rightarrow> run_event list" where
  "empty_filter_trace g st =
     [Print (''\<newline>[bold]Discovering sets for '' @ g @ ''...[/bold]''),
      Print ''Filtered to 0 sets: '',
      Print ''\<newline>[bold]Fetching card data...[/bold]'',
      Print ''Fetched 0 cards across 0 sets'',
      Print ''\<newline>[bold]Downloading images...[/bold]'',
      Print ''Images: [green]0 downloaded[/green], [red]0 failed[/red]'',
      Print ''\<newline>[bold]Generating manifests...[/bold]'',
      GenRoot [],
      SaveState st,
      Print ''\<newline>[bold green]Scrape complete![/bold green]'']"

section \<open>Lemmas on dictionaries\<close>

lemma dict_get_set_same: "dict_get (dict_set k v d) k = Some v"
  by (induction d) auto

lemma dict_get_set_other: "k' \<noteq> k \<Longrightarrow> dict_get (dict_set k v d) k' = dict_get d k'"
  by (induction d) auto

lemma dict_get_append:
  "dict_get (d @ e) k = (case dict_get d k of Some v \<Rightarrow> Some v | None \<Rightarrow> dict_get e k)"
  by (induction d) auto

lemma dict_get_None_iff: "dict_get d k = None \<longleftrightarrow> k \<notin> fst ` set d"
  by (induction d) (auto split: if_splits)

lemma dict_set_absent: "dict_get d k = None \<Longrightarrow> dict_set k v d = d @ [(k, v)]"
  by (induction d) (auto split: if_splits)

lemma dict_set_append_last: "dict_get d k = None \<Longrightarrow> dict_set k v (d @ [(k, w)]) = d @ [(k, v)]"
  by (induction d) (auto split: if_splits)

lemma dict_set_same_value: "dict_get d k = Some v \<Longrightarrow> dict_set k v d = d"
  by (induction d) (auto split: if_splits)

lemma dict_set_twice: "dict_set k v (dict_set k w d) = dict_set k v d"
  by (induction d) auto

lemma keys_dict_set:
  "map fst (dict_set k v d) = (if k \<in> set (map fst d) then map fst d else map fst d @ [k])"
  by (induction d) force+

lemma is_dict_set: "is_dict d \<Longrightarrow> is_dict (dict_set k v d)"
  by (auto simp: is_dict_def keys_dict_set)

section \<open>Marking cards and images\<close>

lemma card_ids_of_mark_card_scraped:
  "card_ids_of (mark_card_scraped sid cid st) sid =
     (if cid \<in> set (card_ids_of st sid) then card_ids_of st sid else card_ids_of st sid @ [cid])"
  by (cases "dict_get (sets st) sid")
     (auto simp: mark_card_scraped_def dict_setdefault_def card_ids_of_def SetScrapeState_init_def
        dict_get_set_same dict_get_append)

lemma card_ids_of_mark_card_scraped_other:
  "sid' \<noteq> sid \<Longrightarrow> card_ids_of (mark_card_scraped sid cid st) sid' = card_ids_of st sid'"
  by (cases "dict_get (sets st) sid")
     (auto simp: mark_card_scraped_def dict_setdefault_def card_ids_of_def
        dict_get_set_other dict_get_append split: option.splits)

lemma mark_card_scraped_idem:
  "mark_card_scraped sid cid (mark_card_scraped sid cid st) = mark_card_scraped sid cid st"
proof (cases "dict_get (sets st) sid")
  case None
  then show ?thesis
    by (simp add: mark_card_scraped_def dict_setdefault_def SetScrapeState_init_def
        dict_set_append_last dict_get_append)
next
  case (Some ss)
  then show ?thesis
    by (simp add: mark_card_scraped_def dict_setdefault_def dict_get_set_same)
qed

lemma mark_card_scraped_funpow:
  "0 < n \<Longrightarrow> (mark_card_scraped sid cid ^^ n) st = mark_card_scraped sid cid st"
proof (induction n)
  case 0
  then show ?case by simp
next
  case (Suc n)
  show ?case
  proof (cases "n = 0")
    case True
    then show ?thesis by simp
  next
    case False
    with Suc.IH have "(mark_card_scraped sid cid ^^ n) st = mark_card_scraped sid cid st"
      by simp
    then show ?thesis by (simp add: mark_card_scraped_idem)
  qed
qed

lemma sets_mark_image_absent:
  "dict_get (sets st) sid = None \<Longrightarrow>
     sets (mark_image sid cid stat pth err st) =
       sets st @ [(sid, \<lparr>set_id = sid, last_scraped = None, card_ids = [],
         images = [(cid, \<lparr>card_id = cid, status = stat, path = pth, error = err\<rparr>)]\<rparr>)]"
  by (simp add: mark_image_def dict_setdefault_def SetScrapeState_init_def dict_set_append_last)

lemma sets_mark_card_scraped_absent:
  "dict_get (sets st) sid = None \<Longrightarrow>
     sets (mark_card_scraped sid cid st) =
       sets st @ [(sid, \<lparr>set_id = sid, last_scraped = None, card_ids = [cid], images = []\<rparr>)]"
  by (simp add: mark_card_scraped_def dict_setdefault_def SetScrapeState_init_def
      dict_set_append_last)

lemma count_list_append: "count_list (xs @ ys) x = count_list xs x + count_list ys x"
  by (induction xs) auto

lemma count_list_0_iff_notin: "x \<notin> set xs \<Longrightarrow> count_list xs x = 0"
  by (induction xs) auto

lemma count_list_pos_if_in: "x \<in> set xs \<Longrightarrow> 0 < count_list xs x"
  by (induction xs) auto

text \<open>
  C9. Idempotent card marking. Take any state in which card \<open>cid\<close> occurs at most once in
  the card-id list of set \<open>sid\<close> (the uniqueness invariant of the data model). Calling
  \<open>mark_card_scraped sid cid\<close> any number \<open>n > 0\<close> of times gives the state that one
  call gives; in it \<open>cid\<close> occurs exactly once in the list of \<open>sid\<close>; the list is the old
  one when \<open>cid\<close> was already there (so \<open>cid\<close> keeps the position of its first
  insertion) and the old one with \<open>cid\<close> appended otherwise; and the card-id lists of
  all other sets are unchanged.
\<close>

theorem mark_card_scraped_idempotent:
  assumes "0 < n" and "count_list (card_ids_of st sid) cid \<le> 1"
  shows "(mark_card_scraped sid cid ^^ n) st = mark_card_scraped sid cid st
       \<and> count_list (card_ids_of ((mark_card_scraped sid cid ^^ n) st) sid) cid = 1
       \<and> card_ids_of ((mark_card_scraped sid cid ^^ n) st) sid =
           (if cid \<in> set (card_ids_of st sid) then card_ids_of st sid
            else card_ids_of st sid @ [cid])
       \<and> (\<forall>sid'. sid' \<noteq> sid \<longrightarrow>
             card_ids_of ((mark_card_scraped sid cid ^^ n) st) sid' = card_ids_of st sid')"
proof -
  have once: "(mark_card_scraped sid cid ^^ n) st = mark_card_scraped sid cid st"
    using assms(1) by (rule mark_card_scraped_funpow)
  have cnt: "count_list (card_ids_of (mark_card_scraped sid cid st) sid) cid = 1"
  proof (cases "cid \<in> set (card_ids_of st sid)")
    case True
    then have "0 < count_list (card_ids_of st sid) cid" by (rule count_list_pos_if_in)
    with assms(2) True show ?thesis by (simp add: card_ids_of_mark_card_scraped)
  next
    case False
    then show ?thesis
      by (simp add: card_ids_of_mark_card_scraped count_list_append count_list_0_iff_notin)
  qed
  show ?thesis
    unfolding once using cnt
    by (simp add: card_ids_of_mark_card_scraped card_ids_of_mark_card_scraped_other)
qed

theorem mark_card_scraped_idempotent_witness:
  "(mark_card_scraped ''OP-01'' ''OP01-002'' ^^ 3)
      \<lparr>sets = [(''OP-01'', \<lparr>set_id = ''OP-01'', last_scraped = None,
                 card_ids = [''OP01-001''], images = []\<rparr>)]\<rparr>
   = \<lparr>sets = [(''OP-01'', \<lparr>set_id = ''OP-01'', last_scraped = None,
                 card_ids = [''OP01-001'', ''OP01-002''], images = []\<rparr>)]\<rparr>
   \<and> count_list (card_ids_of ((mark_card_scraped ''OP-01'' ''OP01-002'' ^^ 3)
      \<lparr>sets = [(''OP-01'', \<lparr>set_id = ''OP-01'', last_scraped = None,
                 card_ids = [''OP01-001''], images = []\<rparr>)]\<rparr>) ''OP-01'') ''OP01-002'' = 1"
  using mark_card_scraped_idempotent [of 3
      "\<lparr>sets = [(''OP-01'', \<lparr>set_id = ''OP-01'', last_scraped = None,
                 card_ids = [''OP01-001''], images = []\<rparr>)]\<rparr>" "''OP-01''" "''OP01-002''"]
  by (simp add: card_ids_of_def mark_card_scraped_def dict_setdefault_def)

text \<open>
  C10. Implicit set-entry creation. When the state has no entry for set \<open>sid\<close>,
  \<open>mark_image sid cid stat pth err\<close> appends an entry for \<open>sid\<close> whose \<open>last_scraped\<close>
  is absent, whose card-id list is empty and whose images map holds the one entry for
  \<open>cid\<close>; afterwards \<open>is_card_scraped sid cid\<close> is false, and
  \<open>is_image_downloaded sid cid\<close> is true exactly when the status written is
  \<open>success\<close>. \<open>mark_card_scraped sid cid\<close> likewise appends an entry with
  \<open>last_scraped\<close> absent.
\<close>

theorem mark_image_creates_set_entry:
  assumes "dict_get (sets st) sid = None"
  shows "sets (mark_image sid cid stat pth err st) =
           sets st @ [(sid, \<lparr>set_id = sid, last_scraped = None, card_ids = [],
             images = [(cid, \<lparr>card_id = cid, status = stat, path = pth, error = err\<rparr>)]\<rparr>)]
       \<and> \<not> is_card_scraped (mark_image sid cid stat pth err st) sid cid
       \<and> (is_image_downloaded (mark_image sid cid stat pth err st) sid cid
            \<longleftrightarrow> stat = ''success'')
       \<and> sets (mark_card_scraped sid cid st) =
           sets st @ [(sid, \<lparr>set_id = sid, last_scraped = None, card_ids = [cid],
             images = []\<rparr>)]"
  using assms
  by (simp add: sets_mark_image_absent sets_mark_card_scraped_absent is_card_scraped_def
      is_image_downloaded_def dict_get_append)

theorem mark_image_creates_set_entry_witness:
  "dict_get (sets ScrapeState_init) ''OP-01'' = None
   \<and> \<not> is_card_scraped
        (mark_image ''OP-01'' ''OP01-001'' ''success'' (Some ''/img/OP01-001.jpg'') None
           ScrapeState_init) ''OP-01'' ''OP01-001''
   \<and> is_image_downloaded
        (mark_image ''OP-01'' ''OP01-001'' ''success'' (Some ''/img/OP01-001.jpg'') None
           ScrapeState_init) ''OP-01'' ''OP01-001''"
  using mark_image_creates_set_entry [of ScrapeState_init "''OP-01''" "''OP01-001''"
      "''success''" "Some ''/img/OP01-001.jpg''" None]
  by (simp add: ScrapeState_init_def)

section \<open>Saving and loading\<close>

lemma dict_set_new: "k \<notin> set (map fst d) \<Longrightarrow> dict_set k v d = d @ [(k, v)]"
  by (induction d) auto

lemma deserialize_images_serialized:
  "distinct (map fst acc @ map fst xs) \<Longrightarrow>
     deserialize_images (map serialize_image xs) acc = Inr (acc @ map loaded_of_image xs)"
proof (induction xs arbitrary: acc)
  case Nil
  then show ?case by simp
next
  case (Cons x xs)
  obtain cid img where x: "x = (cid, img)" by (cases x)
  from Cons.prems x have new: "cid \<notin> set (map fst acc)" by auto
  from Cons.prems x have d: "distinct (map fst (acc @ [(cid, l)]) @ map fst xs)" for l :: CardImageStatus_loaded
    by auto
  show ?case
    using Cons.IH [OF d] new
    by (simp add: x serialize_image_def loaded_of_image_def then_do_def dict_set_new)
qed

lemma deserialize_sets_serialized:
  "distinct (map fst acc @ map fst xs) \<Longrightarrow> list_all (\<lambda>(sid, ss). is_dict (images ss)) xs \<Longrightarrow>
     deserialize_sets (map serialize_set xs) acc = Inr (acc @ map loaded_of_set xs)"
proof (induction xs arbitrary: acc)
  case Nil
  then show ?case by simp
next
  case (Cons x xs)
  obtain sid ss where x: "x = (sid, ss)" by (cases x)
  from Cons.prems x have new: "sid \<notin> set (map fst acc)" by auto
  from Cons.prems x have d: "distinct (map fst (acc @ [(sid, l)]) @ map fst xs)" for l :: SetScrapeState_loaded
    by auto
  from Cons.prems x have im: "distinct (map fst ([] :: (string, CardImageStatus_loaded) dict) @ map fst (images ss))"
    by (simp add: is_dict_def)
  from Cons.prems have rest: "list_all (\<lambda>(sid, ss). is_dict (images ss)) xs" by simp
  show ?case
    using Cons.IH [OF d rest] new deserialize_images_serialized [OF im]
    by (simp add: x serialize_set_def loaded_of_set_def then_do_def dict_set_new)
qed

lemma deserialize_serialize:
  "dicts_ok st \<Longrightarrow> deserialize_state (serialize_state st) = Inr (loaded_of_state st)"
  using deserialize_sets_serialized [of "[]" "sets st"]
  by (simp add: dicts_ok_def is_dict_def deserialize_state_def serialize_state_def
      loaded_of_state_def then_do_def)

lemma all_some_map_Some: "all_some (map (\<lambda>x. Some (f x)) xs) = Some (map f xs)"
  by (induction xs) auto

lemma all_some_map_id: "(\<And>x. x \<in> set xs \<Longrightarrow> g (f x) = Some x) \<Longrightarrow> all_some (map (g \<circ> f) xs) = Some xs"
  by (induction xs) auto

lemma optional_of_json_of_optional: "optional_of_json (json_of_optional x) = Some x"
  by (cases x) (simp_all add: json_of_optional_def)

lemma image_of_loaded_of_image: "image_of_loaded (loaded_of_image x) = Some x"
  by (cases x) (simp add: image_of_loaded_def loaded_of_image_def optional_of_json_of_optional)

lemma all_some_strs: "all_some (map (str_of_json \<circ> JStr) xs) = Some xs"
  by (induction xs) auto

lemma set_of_loaded_of_set: "set_of_loaded (loaded_of_set x) = Some x"
  using all_some_map_id [of "images (snd x)" image_of_loaded loaded_of_image]
  by (cases x) (simp add: set_of_loaded_def loaded_of_set_def optional_of_json_of_optional
      all_some_strs image_of_loaded_of_image)

lemma state_of_loaded_of_state: "state_of_loaded (loaded_of_state st) = Some st"
  using all_some_map_id [of "sets st" set_of_loaded loaded_of_set]
  by (simp add: state_of_loaded_def loaded_of_state_def set_of_loaded_of_set)

text \<open>
  C5. Serialization round-trip. For every state whose dictionaries hold each key once,
  \<open>load\<close> on the file that \<open>save\<close> wrote raises nothing, logs nothing and returns
  the object whose fields hold the values of the original state: read back with the
  annotated types it is the original state, with every set's id, timestamp, ordered
  card-id list and per-card image status (status, path, error), in the same order.
\<close>

theorem save_load_round_trip:
  assumes "dicts_ok st"
  shows "load (save st) = Inr (loaded_of_state st, [])
       \<and> state_of_loaded (loaded_of_state st) = Some st"
  using assms
  by (simp add: load_def save_def then_do_def deserialize_serialize state_of_loaded_of_state)

theorem save_load_round_trip_witness:
  "dicts_ok \<lparr>sets = [(''OP-01'', \<lparr>set_id = ''OP-01'', last_scraped = Some ''2024-01-01T00:00:00+00:00'',
       card_ids = [''OP01-001'', ''OP01-002''],
       images = [(''OP01-001'', \<lparr>card_id = ''OP01-001'', status = ''success'',
                    path = Some ''/img/OP01-001.jpg'', error = None\<rparr>),
                 (''OP01-002'', \<lparr>card_id = ''OP01-002'', status = ''failed'',
                    path = None, error = Some ''404''\<rparr>)]\<rparr>)]\<rparr>
   \<and> (case load (save \<lparr>sets = [(''OP-01'', \<lparr>set_id = ''OP-01'', last_scraped = Some ''2024-01-01T00:00:00+00:00'',
       card_ids = [''OP01-001'', ''OP01-002''],
       images = [(''OP01-001'', \<lparr>card_id = ''OP01-001'', status = ''success'',
                    path = Some ''/img/OP01-001.jpg'', error = None\<rparr>),
                 (''OP01-002'', \<lparr>card_id = ''OP01-002'', status = ''failed'',
                    path = None, error = Some ''404''\<rparr>)]\<rparr>)]\<rparr>) of
        Inl e \<Rightarrow> False
      | Inr (l, logs) \<Rightarrow> map fst (l_sets l) = [''OP-01''])"
  using save_load_round_trip [of "\<lparr>sets = [(''OP-01'', \<lparr>set_id = ''OP-01'', last_scraped = Some ''2024-01-01T00:00:00+00:00'',
       card_ids = [''OP01-001'', ''OP01-002''],
       images = [(''OP01-001'', \<lparr>card_id = ''OP01-001'', status = ''success'',
                    path = Some ''/img/OP01-001.jpg'', error = None\<rparr>),
                 (''OP01-002'', \<lparr>card_id = ''OP01-002'', status = ''failed'',
                    path = None, error = Some ''404''\<rparr>)]\<rparr>)]\<rparr>"]
  by (simp add: dicts_ok_def is_dict_def loaded_of_state_def loaded_of_set_def)

text \<open>
  What \<open>load\<close> recovers from: a missing file, text that is not JSON, and a document
  in which an image entry lacks \<open>card_id\<close> or is not a dictionary.
\<close>

lemma load_recovers:
  "load None = Inr (\<lparr>l_sets = []\<rparr>, [LogInfo ''No state file, starting fresh''])"
  "load (Some NotJson) = Inr (\<lparr>l_sets = []\<rparr>, [LogWarning ''Corrupt state file, starting fresh''])"
  "load (Some (Json (JObj [(''sets'', JObj [(''OP-01'', JObj [(''images'',
      JObj [(''OP01-001'', JObj [])])])])]))) =
     Inr (\<lparr>l_sets = []\<rparr>, [LogWarning ''Corrupt state file, starting fresh''])"
  "load (Some (Json (JObj [(''sets'', JObj [(''OP-01'', JObj [(''images'',
      JObj [(''OP01-001'', JNum 5)])])])]))) =
     Inr (\<lparr>l_sets = []\<rparr>, [LogWarning ''Corrupt state file, starting fresh''])"
  by (simp_all add: load_def then_do_def deserialize_state_def)

lemma load_raises_only:
  "load fc = Inl e \<Longrightarrow> e = AttributeError \<or> e = UnicodeDecodeError"
proof -
  have img: "deserialize_images xs acc = Inl e \<Longrightarrow> e = KeyError \<or> e = TypeError \<or> e = AttributeError"
    for xs acc
  proof (induction xs acc rule: deserialize_images.induct)
    case (1 imgs)
    then show ?case by simp
  next
    case (2 cid img_raw rest imgs)
    then show ?case
      by (cases img_raw) (auto simp: then_do_def split: option.splits)
  qed
  have ssets: "deserialize_sets xs acc = Inl e \<Longrightarrow> e = KeyError \<or> e = TypeError \<or> e = AttributeError"
    for xs acc
  proof (induction xs acc rule: deserialize_sets.induct)
    case (1 ssets)
    then show ?case by simp
  next
    case (2 sid ss_raw rest ssets)
    show ?case
    proof (cases ss_raw)
      case (JObj d)
      obtain im where im: "py_get ss_raw ''images'' (JObj []) = Inr im"
        using JObj by simp
      show ?thesis
      proof (cases im)
        case (JObj items)
        then show ?thesis
          using 2 im \<open>ss_raw = JObj d\<close> img [of items "[]"]
          by (cases "deserialize_images items []") (auto simp: then_do_def)
      qed (use 2 im \<open>ss_raw = JObj d\<close> in \<open>auto simp: then_do_def\<close>)
    qed (use 2 in \<open>auto simp: then_do_def\<close>)
  qed
  have des: "deserialize_state j = Inl e \<Longrightarrow> e = KeyError \<or> e = TypeError \<or> e = AttributeError"
    for j
  proof (cases j)
    case (JObj d)
    assume a: "deserialize_state j = Inl e"
    obtain s where s: "py_get j ''sets'' (JObj []) = Inr s" using JObj by simp
    show ?thesis
    proof (cases s)
      case (JObj items)
      then show ?thesis
        using a s ssets [of items "[]"]
        by (cases "deserialize_sets items []") (auto simp: deserialize_state_def then_do_def)
    qed (use a s in \<open>auto simp: deserialize_state_def then_do_def\<close>)
  qed (auto simp: deserialize_state_def then_do_def)
  assume l: "load fc = Inl e"
  show ?thesis
  proof (cases fc)
    case None
    with l show ?thesis by (simp add: load_def)
  next
    case (Some c)
    show ?thesis
    proof (cases c)
      case (Json j)
      with l Some des [of j] show ?thesis
        by (cases "deserialize_state j") (auto simp: load_def then_do_def split: if_splits)
    qed (use l Some in \<open>auto simp: load_def then_do_def split: if_splits\<close>)
  qed
qed

text \<open>
  C3. Corrupt-state resilience, at the state file whose text is \<open>[]\<close>: the document is
  a list, \<open>raw.get\<close> raises \<open>AttributeError\<close>, which the \<open>except\<close> clause of \<open>_load\<close>
  does not name, so \<open>load\<close> raises instead of yielding the empty state.
\<close>

theorem load_raises_on_json_list:
  "load (Some (Json (JArr []))) = Inl AttributeError"
  by (simp add: load_def then_do_def deserialize_state_def)

section \<open>Downloading one image\<close>

text \<open>
  With any retry count of at least one, a download whose every attempt fails makes
  that many requests, sleeps between them and names the count in its message.
\<close>

lemma requests_retry_events:
  "attempt \<le> retries \<Longrightarrow>
     length (filter is_request (retry_events url attempt retries)) = nat (retries - attempt + 1)"
proof (induction url attempt retries rule: retry_events.induct)
  case (1 url attempt retries)
  show ?case
  proof (cases "attempt < retries")
    case True
    with 1 have "length (filter is_request (retry_events url (attempt + 1) retries)) =
        nat (retries - (attempt + 1) + 1)" by simp
    moreover have "Suc (nat (retries - (attempt + 1) + 1)) = nat (retries - attempt + 1)"
      using True by linarith
    ultimately show ?thesis
      using True by (subst retry_events.simps) simp
  next
    case False
    with 1 show ?thesis by (subst retry_events.simps) simp
  qed
qed

lemma attempt_loop_all_fail:
  "\<forall>n. is_failure (net n url) \<Longrightarrow> attempt \<le> max_retries d \<Longrightarrow>
     attempt_loop d net crd url dest attempt w =
       ((False, Some (''Failed after '' @ str_int (max_retries d) @ '' attempts: ''
                      @ exc_text (net (requests w + nat (max_retries d - attempt)) url))),
        w\<lparr>events := events w @ retry_events url attempt (max_retries d)\<rparr>)"
proof (induction d net crd url dest attempt w rule: attempt_loop.induct)
  case (1 d net crd url dest attempt w)
  have f: "is_failure (net n url)" for n using "1.prems" by simp
  have c: "(case net n url of Ok content \<Rightarrow> a content | _ \<Rightarrow> b) = b" for n a and b :: "'x"
    using f [of n] by (cases "net n url") simp_all
  show ?case
  proof (cases "attempt < max_retries d")
    case True
    let ?w1 = "w\<lparr>events := events w @ [HttpGet url]\<rparr>"
    let ?w2 = "?w1\<lparr>events := events ?w1 @ [Sleep (BACKOFF_BASE * 2 ^ nat (attempt - 1))]\<rparr>"
    have nf: "\<not> max_retries d < attempt" using True by simp
    have nok: "\<And>content. net (requests w) url \<noteq> Ok content"
      using f [of "requests w"] by auto
    have ih: "attempt_loop d net crd url dest (attempt + 1) ?w2 =
       ((False, Some (''Failed after '' @ str_int (max_retries d) @ '' attempts: ''
                      @ exc_text (net (requests ?w2 + nat (max_retries d - (attempt + 1))) url))),
        ?w2\<lparr>events := events ?w2 @ retry_events url (attempt + 1) (max_retries d)\<rparr>)"
      using "1.IH" [OF nf refl refl _ True "1.prems"(1)] nok True
      by (cases "net (requests w) url") auto
    have r: "requests ?w2 + nat (max_retries d - (attempt + 1)) = requests w + nat (max_retries d - attempt)"
      using True by (simp add: requests_def)
    show ?thesis
      apply (subst attempt_loop.simps)
      apply (subst retry_events.simps)
      using True ih r by (simp add: c Let_def)
  next
    case False
    with "1.prems" have e: "attempt = max_retries d" by simp
    show ?thesis
      apply (subst attempt_loop.simps)
      apply (subst retry_events.simps)
      using e by (simp add: c Let_def)
  qed
qed


lemma download_all_attempts_fail:
  assumes "url \<noteq> []"
      and "files w (image_path d (oc_set_id crd) (oc_id crd) (url_extension url)) = None"
      and "\<forall>n. is_failure (net n url)"
      and "1 \<le> max_retries d"
  shows "download_card_image d net crd url w =
           ((False, Some (''Failed after '' @ str_int (max_retries d) @ '' attempts: ''
                          @ exc_text (net (requests w + nat (max_retries d - 1)) url))),
            w\<lparr>events := events w @ retry_events url 1 (max_retries d)\<rparr>)"
    and "length (filter is_request (retry_events url 1 (max_retries d))) = nat (max_retries d)"
  using assms
  by (simp_all add: download_card_image_def attempt_loop_all_fail requests_retry_events)

text \<open>
  C4. Retry exhaustion. A downloader with the default retry count is asked for a card
  whose URL is not empty and whose destination does not exist, and every request for
  the URL fails (a transport error or a status that is not 2xx). Then exactly three
  requests are made; after the first failure it sleeps \<open>BACKOFF_BASE * 2 ^ 0\<close> seconds
  and after the second \<open>BACKOFF_BASE * 2 ^ 1\<close>, with no sleep after the third; no
  file is written; and the call returns failure with the message
  \<open>Failed after 3 attempts: \<close> followed by the text of the last exception.
\<close>

theorem download_retry_exhaustion:
  assumes "url \<noteq> []"
      and "files w (image_path d (oc_set_id crd) (oc_id crd) (url_extension url)) = None"
      and "\<forall>n. is_failure (net n url)"
      and "max_retries d = MAX_RETRIES"
  shows "download_card_image d net crd url w =
           ((False, Some (''Failed after 3 attempts: '' @ exc_text (net (requests w + 2) url))),
            w\<lparr>events := events w @
               [HttpGet url, Sleep (BACKOFF_BASE * 2 ^ 0),
                HttpGet url, Sleep (BACKOFF_BASE * 2 ^ 1),
                HttpGet url]\<rparr>)"
proof -
  have f: "is_failure (net n url)" for n using assms(3) by simp
  have c: "(case net n url of Ok content \<Rightarrow> a content | _ \<Rightarrow> b) = b" for n a and b :: "'x"
    using f [of n] by (cases "net n url") simp_all
  show ?thesis
    using assms(1,2,4)
    by (simp add: download_card_image_def attempt_loop.simps [of d net crd url] MAX_RETRIES_def
      Let_def c requests_def str_int_def str_nat.simps)
qed

theorem download_retry_exhaustion_witness:
  "download_card_image (ImageDownloader_init ''output'' None None)
      (\<lambda>n url. StatusError 500 ''Server error 500'') card_OP01_001
      ''https://example.org/img/OP01-001.png'' empty_world =
     ((False, Some ''Failed after 3 attempts: Server error 500''),
      \<lparr>files = Map.empty,
       events = [HttpGet ''https://example.org/img/OP01-001.png'', Sleep 1,
                 HttpGet ''https://example.org/img/OP01-001.png'', Sleep 2,
                 HttpGet ''https://example.org/img/OP01-001.png'']\<rparr>)"
  using download_retry_exhaustion [of "''https://example.org/img/OP01-001.png''" empty_world
      "ImageDownloader_init ''output'' None None" card_OP01_001
      "\<lambda>n url. StatusError 500 ''Server error 500''"]
  by (simp add: ImageDownloader_init_def empty_world_def BACKOFF_BASE_def)

text \<open>
  C6. Existence-based skip. For every card and every non-empty URL, when the
  destination (the path made of the output directory, the card's set id, \<open>cards\<close> and
  the card id with the extension guessed from the URL) exists, the call returns
  \<open>(True, None)\<close> and leaves the world as it was: no request, no sleep, no write, and
  the files unchanged.
\<close>

theorem download_skips_existing:
  assumes "url \<noteq> []"
      and "image_exists d w (oc_set_id crd) (oc_id crd) (url_extension url)"
  shows "download_card_image d net crd url w = ((True, None), w)"
  using assms by (simp add: download_card_image_def image_exists_def)

theorem download_skips_existing_witness:
  "download_card_image (ImageDownloader_init ''output'' None None)
      (\<lambda>n url. Ok ''new bytes'') card_OP01_001 ''https://example.org/img/OP01-001.PNG?v=2''
      \<lparr>files = [[''output'', ''OP-01'', ''cards'', ''OP01-001.png''] \<mapsto> ''old bytes''],
       events = []\<rparr> =
     ((True, None),
      \<lparr>files = [[''output'', ''OP-01'', ''cards'', ''OP01-001.png''] \<mapsto> ''old bytes''],
       events = []\<rparr>)"
  using download_skips_existing [of "''https://example.org/img/OP01-001.PNG?v=2''"
      "ImageDownloader_init ''output'' None None"
      "\<lparr>files = [[''output'', ''OP-01'', ''cards'', ''OP01-001.png''] \<mapsto> ''old bytes''],
        events = []\<rparr>" card_OP01_001 "\<lambda>n url. Ok ''new bytes''"]
  by (simp add: image_exists_def image_path_def ImageDownloader_init_def card_OP01_001_def
      url_extension_def before_def after_last_def lower_def lower_char_def)

section \<open>The fallback chain\<close>

lemma dedup_loop_first_occurrences:
  "dedup_loop cs seen unique =
     unique @ first_occurrences (filter (\<lambda>c. cd_id c \<notin> seen) cs)"
proof (induction cs arbitrary: seen unique)
  case Nil
  then show ?case by simp
next
  case (Cons c cs)
  have "filter (\<lambda>x. cd_id x \<notin> insert (cd_id c) seen) cs =
        filter (\<lambda>x. cd_id x \<noteq> cd_id c) (filter (\<lambda>x. cd_id x \<notin> seen) cs)"
    by (induction cs) auto
  with Cons show ?case by simp
qed

lemma dedup_loop_start: "dedup_loop cs {} [] = first_occurrences cs"
  by (simp add: dedup_loop_first_occurrences)

lemma first_occurrences_ids:
  "set (map cd_id (first_occurrences cs)) = set (map cd_id cs)"
proof (induction cs rule: first_occurrences.induct)
  case 1
  then show ?case by simp
next
  case (2 c cs)
  then show ?case by auto
qed

lemma first_occurrences_distinct: "distinct (map cd_id (first_occurrences cs))"
proof (induction cs rule: first_occurrences.induct)
  case 1
  then show ?case by simp
next
  case (2 c cs)
  have "cd_id c \<notin> set (map cd_id (filter (\<lambda>x. cd_id x \<noteq> cd_id c) cs))" by auto
  with 2 show ?case by (simp add: first_occurrences_ids del: set_map)
qed

lemma first_occurrences_subseq: "subseq (first_occurrences cs) cs"
proof (induction cs rule: first_occurrences.induct)
  case 1
  then show ?case by simp
next
  case (2 c cs)
  have "subseq (filter (\<lambda>x. cd_id x \<noteq> cd_id c) cs) cs" by simp
  with 2 have "subseq (first_occurrences (filter (\<lambda>x. cd_id x \<noteq> cd_id c) cs)) cs"
    using subseq_order.order_trans by blast
  then show ?case by simp
qed

lemma first_occurrences_first:
  "c \<in> set (first_occurrences cs) \<Longrightarrow> find (\<lambda>x. cd_id x = cd_id c) cs = Some c"
proof (induction cs rule: first_occurrences.induct)
  case 1
  then show ?case by simp
next
  case (2 d cs)
  show ?case
  proof (cases "c = d")
    case True
    then show ?thesis by simp
  next
    case False
    with 2 have in_rest: "c \<in> set (first_occurrences (filter (\<lambda>x. cd_id x \<noteq> cd_id d) cs))" by simp
    then have "cd_id c \<in> set (map cd_id (filter (\<lambda>x. cd_id x \<noteq> cd_id d) cs))"
      using first_occurrences_ids by (metis image_eqI list.set_map)
    then have ne: "cd_id d \<noteq> cd_id c" by auto
    have "find (\<lambda>x. cd_id x = cd_id c) (filter (\<lambda>x. cd_id x \<noteq> cd_id d) cs) = Some c"
      using 2 in_rest by simp
    moreover have "find (\<lambda>x. cd_id x = cd_id c) (filter (\<lambda>x. cd_id x \<noteq> cd_id d) cs) =
          find (\<lambda>x. cd_id x = cd_id c) cs"
      using ne by (induction cs) auto
    ultimately show ?thesis using ne by simp
  qed
qed

text \<open>
  C1. Card resolver fallback. For every adapter list (in priority order), set id and
  force flag: let an adapter that raises count as yielding the empty list. If every
  adapter yields the empty list, the result is the empty list and every adapter was
  called once, in order. Otherwise, with \<open>a\<close> the first adapter that yields a
  non-empty list, the result is that list with the first occurrence of every card id
  kept (\<open>first_occurrences\<close>: order preserved), and the calls made are exactly those
  to the adapters before \<open>a\<close> and to \<open>a\<close>, in order: no later adapter is called.
\<close>

theorem fetch_cards_fallback:
  "fetch_cards adapters sid force =
     (case dropWhile (\<lambda>a. yields a sid = []) adapters of
        [] \<Rightarrow> ([], map (\<lambda>a. GetCards (a_name a) sid) adapters)
      | a # later \<Rightarrow>
          (first_occurrences (yields a sid),
           map (\<lambda>a. GetCards (a_name a) sid)
             (takeWhile (\<lambda>a. yields a sid = []) adapters @ [a])))"
proof (induction adapters)
  case Nil
  then show ?case by simp
next
  case (Cons a as)
  show ?case
  proof (cases "yields a sid = []")
    case True
    then have step: "fetch_cards (a # as) sid force =
        (fst (fetch_cards as sid force), GetCards (a_name a) sid # snd (fetch_cards as sid force))"
      by (cases "get_cards a sid") (simp_all add: yields_def split: prod.splits)
    have dw: "dropWhile (\<lambda>a. yields a sid = []) (a # as) = dropWhile (\<lambda>a. yields a sid = []) as"
      and tw: "takeWhile (\<lambda>a. yields a sid = []) (a # as) = a # takeWhile (\<lambda>a. yields a sid = []) as"
      using True by simp_all
    show ?thesis
      by (simp only: step dw tw Cons.IH) (simp split: list.splits del: dropWhile_eq_Nil_conv)
  next
    case False
    then obtain cards where "get_cards a sid = Inr cards" "cards \<noteq> []" "yields a sid = cards"
      by (cases "get_cards a sid") (simp_all add: yields_def)
    then show ?thesis
      using False by (simp add: dedup_loop_start)
  qed
qed

theorem fetch_cards_fallback_witness:
  "fetch_cards
     [an_adapter ''a1'' (Inr [])
        (Inr [a_card ''X'' ''first'' ''a1'', a_card ''X'' ''second'' ''a1'', a_card ''Y'' ''y'' ''a1'']),
      an_adapter ''a2'' (Inr []) (Inr [a_card ''Z'' ''z'' ''a2''])] ''OP-01'' False =
     ([a_card ''X'' ''first'' ''a1'', a_card ''Y'' ''y'' ''a1''], [GetCards ''a1'' ''OP-01''])
   \<and> fetch_cards
     [an_adapter ''a1'' (Inr []) (Inl (Exception ''timeout'')),
      an_adapter ''a2'' (Inr []) (Inr [a_card ''Z'' ''z'' ''a2''])] ''OP-01'' False =
     ([a_card ''Z'' ''z'' ''a2''], [GetCards ''a1'' ''OP-01'', GetCards ''a2'' ''OP-01''])
   \<and> fetch_cards
     [an_adapter ''a1'' (Inr []) (Inl (Exception ''timeout'')),
      an_adapter ''a2'' (Inr []) (Inr [])] ''OP-01'' False =
     ([], [GetCards ''a1'' ''OP-01'', GetCards ''a2'' ''OP-01''])"
  using fetch_cards_fallback [of
     "[an_adapter ''a1'' (Inr [])
        (Inr [a_card ''X'' ''first'' ''a1'', a_card ''X'' ''second'' ''a1'', a_card ''Y'' ''y'' ''a1'']),
      an_adapter ''a2'' (Inr []) (Inr [a_card ''Z'' ''z'' ''a2''])]" "''OP-01''" False]
    fetch_cards_fallback [of
     "[an_adapter ''a1'' (Inr []) (Inl (Exception ''timeout'')),
      an_adapter ''a2'' (Inr []) (Inr [a_card ''Z'' ''z'' ''a2''])]" "''OP-01''" False]
    fetch_cards_fallback [of
     "[an_adapter ''a1'' (Inr []) (Inl (Exception ''timeout'')),
      an_adapter ''a2'' (Inr []) (Inr [])]" "''OP-01''" False]
  by (simp add: yields_def an_adapter_def a_card_def)

section \<open>Discovering sets\<close>

lemma keyed_append_new:
  "keyed d \<Longrightarrow> dict_get d (si_id s) = None \<Longrightarrow> keyed (d @ [(si_id s, s)])"
  by (auto simp: keyed_def dict_get_None_iff)

lemma merge_sets_get:
  "keyed d \<Longrightarrow>
     keyed (merge_sets xs d) \<and>
     dict_get (merge_sets xs d) k =
       (case dict_get d k of Some v \<Rightarrow> Some v | None \<Rightarrow> find (\<lambda>s. si_id s = k) xs)"
proof (induction xs arbitrary: d)
  case Nil
  then show ?case by (simp split: option.splits)
next
  case (Cons s xs)
  show ?case
  proof (cases "dict_get d (si_id s)")
    case None
    then have k: "keyed (d @ [(si_id s, s)])" using Cons.prems by (rule keyed_append_new[rotated])
    show ?thesis
      using Cons.IH [OF k] None
      by (auto simp: dict_set_absent dict_get_append split: option.splits)
  next
    case (Some v)
    then show ?thesis
      using Cons.IH [OF Cons.prems] by (auto split: option.splits)
  qed
qed

lemma merge_sets_append: "merge_sets (xs @ ys) d = merge_sets ys (merge_sets xs d)"
  by (induction xs arbitrary: d) auto

lemma discover_adapters_merge:
  "discover_adapters adapters d = merge_sets (concat (map listed adapters)) d"
  by (induction adapters arbitrary: d) (auto simp: listed_def merge_sets_append split: sum.splits)

lemma dict_get_Some_in: "dict_get d k = Some v \<Longrightarrow> (k, v) \<in> set d"
  by (induction d) (auto split: if_splits)

lemma in_dict_get: "distinct (map fst d) \<Longrightarrow> (k, v) \<in> set d \<Longrightarrow> dict_get d k = Some v"
  by (induction d) (auto simp: rev_image_eqI)

lemma keyed_values:
  assumes "keyed d"
  shows "distinct (map si_id (map snd d))"
    and "v \<in> set (map snd d) \<longleftrightarrow> dict_get d (si_id v) = Some v"
proof -
  have e: "map si_id (map snd d) = map fst d"
    using assms by (induction d) (auto simp: keyed_def)
  show "distinct (map si_id (map snd d))"
    using assms by (simp only: e) (simp add: keyed_def)
  show "v \<in> set (map snd d) \<longleftrightarrow> dict_get d (si_id v) = Some v"
  proof
    assume "v \<in> set (map snd d)"
    then obtain k where kv: "(k, v) \<in> set d" by auto
    with assms have "si_id v = k" by (auto simp: keyed_def list_all_iff)
    with kv assms show "dict_get d (si_id v) = Some v"
      by (simp add: keyed_def in_dict_get)
  next
    assume "dict_get d (si_id v) = Some v"
    then have "(si_id v, v) \<in> set d" by (rule dict_get_Some_in)
    then show "v \<in> set (map snd d)" by force
  qed
qed

lemma distinct_map_sort_key: "distinct (map f (sort_key f xs)) = distinct (map f xs)"
  by (induction xs) (simp_all add: distinct_insort_key)

text \<open>
  For every game but \<open>onepiece\<close>, discovery returns the sets that the adapters
  listed (a raising adapter listing none), each id once with the record of its first
  occurrence in priority order, sorted by id.
\<close>

lemma discover_sets_merges:
  assumes "game cfg \<noteq> ''onepiece''"
  shows "\<exists>r. discover_sets cfg adapters = Inr r
           \<and> sorted (map si_id r) \<and> distinct (map si_id r)
           \<and> set r = {s. find (\<lambda>x. si_id x = si_id s) (concat (map listed adapters)) = Some s}"
proof -
  let ?d = "merge_sets (concat (map listed adapters)) []"
  let ?r = "sort_key si_id (map snd ?d)"
  have k0: "keyed []" by (simp add: keyed_def)
  have k: "keyed ?d" and g: "dict_get ?d i = find (\<lambda>s. si_id s = i) (concat (map listed adapters))" for i
    using merge_sets_get [OF k0, of "concat (map listed adapters)"] by simp_all
  have r: "discover_sets cfg adapters = Inr ?r"
    using assms by (simp add: discover_sets_def discover_adapters_merge dict_values_def)
  have s: "sorted (map si_id ?r)" by (rule sorted_sort_key)
  have "distinct (map si_id (map snd ?d))" using k by (rule keyed_values)
  then have d: "distinct (map si_id ?r)"
    by (simp only: distinct_map_sort_key)
  have m: "set ?r = {s. find (\<lambda>x. si_id x = si_id s) (concat (map listed adapters)) = Some s}"
    using keyed_values(2) [OF k] g by auto
  from r s d m show ?thesis by blast
qed

text \<open>Discovery for the game \<open>onepiece\<close> raises, whatever the adapters return.\<close>

lemma discover_sets_onepiece:
  "game cfg = ''onepiece'' \<Longrightarrow> discover_sets cfg adapters = Inl AttributeError"
  by (simp add: discover_sets_def ScrapeConfig_getattr_def then_do_def Let_def)

text \<open>
  C7. Set-resolver merge, at the default game: with the game \<open>onepiece\<close> and one
  adapter that lists the set \<open>OP-01\<close>, \<open>_discover_sets\<close> reads
  \<open>scrape_cfg.include_promos\<close>, a field that \<open>ScrapeConfig\<close> does not declare, and
  raises \<open>AttributeError\<close> instead of returning the merged sets.
\<close>

theorem discover_sets_onepiece_raises:
  "discover_sets (config_for ''onepiece'')
     [an_adapter ''optcg-api''
        (Inr [\<lparr>si_id = ''OP-01'', si_name = ''Romance Dawn'', si_category = ''booster''\<rparr>])
        (Inr [])] = Inl AttributeError"
  by (simp add: discover_sets_def ScrapeConfig_getattr_def then_do_def Let_def config_for_def)

section \<open>Properties of the pipeline\<close>

lemma image_of_mark_image:
  "image_of (mark_image sid cid stat pth err st) sid cid' =
     (if cid' = cid then Some \<lparr>card_id = cid, status = stat, path = pth, error = err\<rparr>
      else image_of st sid cid')"
  by (cases "dict_get (sets st) sid")
     (auto simp: image_of_def mark_image_def dict_setdefault_def SetScrapeState_init_def
        dict_get_set_same dict_get_set_other dict_get_append)

text \<open>
  What the download stage records, whatever the batch did: every card of the pending
  subset gets the entry \<open>success\<close> with the path when the file at the default
  \<open>jpg\<close> path of the card exists in the world that the batch left, and the entry
  \<open>failed\<close> otherwise.
\<close>

lemma image_of_mark_images:
  "image_of (mark_images d pstr w sid cs st) sid cid =
     (if cid \<in> cd_id ` set cs
      then Some (if cs_image_exists d w sid cid
                 then \<lparr>card_id = cid, status = ''success'',
                       path = Some (pstr (cs_image_path d sid cid)), error = None\<rparr>
                 else \<lparr>card_id = cid, status = ''failed'', path = None, error = None\<rparr>)
      else image_of st sid cid)"
proof (induction cs arbitrary: st)
  case Nil
  then show ?case by simp
next
  case (Cons c cs)
  show ?case
    by (simp add: Cons.IH image_of_mark_image)
qed

lemma is_image_downloaded_image_of:
  "is_image_downloaded st sid cid \<longleftrightarrow>
     (case image_of st sid cid of None \<Rightarrow> False | Some img \<Rightarrow> status img = ''success'')"
  by (simp add: is_image_downloaded_def image_of_def split: option.splits)

lemma download_set_marks_default_path:
  assumes "to_download_of env force sid cards rs = Inr (to_download, rs1)"
      and "download_set env force (sid, cards) rs = Inr (counts, rs')"
      and "c \<in> set to_download"
  shows "\<exists>st'. tracker rs' = Some st'
           \<and> (is_image_downloaded st' sid (cd_id c) \<longleftrightarrow>
                cs_image_exists (env_downloader env) (rworld rs') sid (cd_id c))"
proof -
  from assms(3) have ne: "to_download \<noteq> []" by auto
  obtain cnt w' where b: "env_batch env to_download (get_best_image_url (env_adapters env)) (rworld rs1) = (cnt, w')"
    by (cases "env_batch env to_download (get_best_image_url (env_adapters env)) (rworld rs1)")
  from assms(2) ne b obtain st where st: "get_state env rs1 = Inr st"
    and rs': "rs' = rs1\<lparr>tracker := Some (mark_images (env_downloader env) (env_str_path env) w'
                                        sid to_download st),
                      rworld := w', trace := trace rs1 @ [DownloadBatch (map cd_id to_download)]\<rparr>"
    by (cases "get_state env rs1") (auto simp: download_set_def assms(1) then_do_def)
  show ?thesis
    using assms(3) by (simp add: rs' is_image_downloaded_image_of image_of_mark_images)
qed


text \<open>
  C2. Empty-filter early abort, at a run for the game \<open>mtg\<close> whose adapter lists the
  one set \<open>MKM\<close>, with the filter \<open>XXX\<close>: the filtered list is empty, the run prints
  \<open>Filtered to 0 sets: \<close> and goes on through every stage. It fetches and downloads
  nothing, but it generates the root manifest (for no set), saves the state and
  prints \<open>Scrape complete!\<close>.
\<close>

theorem run_empty_filter_goes_on:
  "run (env_for ''mtg'' [an_adapter ''scryfall-api''
        (Inr [\<lparr>si_id = ''MKM'', si_name = ''Murders at Karlov Manor'', si_category = ''expansion''\<rparr>])
        (Inr [a_card ''c1'' ''Card'' ''scryfall-api''])]) False (Some [''XXX'']) start =
   Inr \<lparr>tracker = Some ScrapeState_init, rworld = empty_world,
        trace =
          [Print ''\<newline>[bold]Discovering sets for mtg...[/bold]'',
           Print ''Filtered to 0 sets: '',
           Print ''\<newline>[bold]Fetching card data...[/bold]'',
           Print ''Fetched 0 cards across 0 sets'',
           Print ''\<newline>[bold]Downloading images...[/bold]'',
           Print ''Images: [green]0 downloaded[/green], [red]0 failed[/red]'',
           Print ''\<newline>[bold]Generating manifests...[/bold]'',
           GenRoot [],
           SaveState ScrapeState_init,
           Print ''\<newline>[bold green]Scrape complete![/bold green]'']\<rparr>"
  by (simp add: run_def env_for_def config_for_def an_adapter_def start_def discover_sets_def
      dict_values_def filter_ids_of_def say_def then_do_def str_nat.simps manifest_stage_def
      get_manifest_generators_def save_state_def get_state_def force_reset_def Let_def)

text \<open>When discovery finds no set at all, the run does stop early.\<close>

lemma run_no_sets_returns_early:
  "run (env_for ''mtg'' [an_adapter ''scryfall-api'' (Inr []) (Inr [])]) False None start =
   Inr \<lparr>tracker = None, rworld = empty_world,
        trace =
          [Print ''\<newline>[bold]Discovering sets for mtg...[/bold]'',
           Print ''[red]No sets found from any adapter[/red]'']\<rparr>"
  by (simp add: run_def env_for_def config_for_def an_adapter_def start_def discover_sets_def
      dict_values_def say_def then_do_def force_reset_def Let_def)

lemma get_state_say: "get_state env (say msg rs) = get_state env rs"
  by (simp add: get_state_def say_def)

lemma get_state_trace: "get_state env (rs\<lparr>trace := t\<rparr>) = get_state env rs"
  by (simp add: get_state_def)

text \<open>
  C2, as amended. A run returns early, after the message
  \<open>No sets found from any adapter\<close> and with no fetch, download, manifest or save
  event, when discovery itself returns no set. When discovery returns sets and the
  filter leaves none of them, the run does not return early: it prints
  \<open>Filtered to 0 sets: \<close>, fetches no card and downloads no image, generates the
  root manifest for no set, saves the state and prints \<open>Scrape complete!\<close>.
\<close>

theorem run_aborts_on_empty_discovery_only:
  "(discover_sets (env_config env) (env_adapters env) = Inr [] \<longrightarrow>
      run env force set_filter rs0 =
        Inr ((force_reset force rs0)
               \<lparr>trace := trace (force_reset force rs0) @
                  [Print (''\<newline>[bold]Discovering sets for '' @ game (env_config env)
                          @ ''...[/bold]''),
                   Print ''[red]No sets found from any adapter[/red]'']\<rparr>))
   \<and> (discover_sets (env_config env) (env_adapters env) = Inr discovered
        \<and> discovered \<noteq> []
        \<and> filter_ids_of set_filter (env_config env) = Some (f # fs)
        \<and> filter (\<lambda>s. si_id s \<in> set (f # fs)) discovered = []
        \<and> get_manifest_generators (game (env_config env)) = Inr ()
        \<and> get_state env (force_reset force rs0) = Inr st \<longrightarrow>
      run env force set_filter rs0 =
        Inr ((force_reset force rs0)
               \<lparr>tracker := Some st,
                trace := trace (force_reset force rs0)
                         @ empty_filter_trace (game (env_config env)) st\<rparr>))"
  by (simp add: run_def then_do_def say_def Let_def str_nat.simps manifest_stage_def
      save_state_def empty_filter_trace_def get_state_say get_state_trace)

theorem run_aborts_on_empty_discovery_only_witness:
  "run (env_for ''mtg'' [an_adapter ''scryfall-api'' (Inr []) (Inr [])]) False None start =
     Inr \<lparr>tracker = None, rworld = empty_world,
          trace = [Print ''\<newline>[bold]Discovering sets for mtg...[/bold]'',
                   Print ''[red]No sets found from any adapter[/red]'']\<rparr>
   \<and> run (env_for ''mtg'' [an_adapter ''scryfall-api''
        (Inr [\<lparr>si_id = ''MKM'', si_name = ''Murders at Karlov Manor'', si_category = ''expansion''\<rparr>])
        (Inr [a_card ''c1'' ''Card'' ''scryfall-api''])]) True (Some [''XXX'']) start =
     Inr \<lparr>tracker = Some ScrapeState_init, rworld = empty_world,
          trace = Print ''[yellow]Force mode: ignoring previous state[/yellow]''
                  # empty_filter_trace ''mtg'' ScrapeState_init\<rparr>"
  using run_aborts_on_empty_discovery_only [where
      env = "env_for ''mtg'' [an_adapter ''scryfall-api'' (Inr []) (Inr [])]"
      and force = False and set_filter = None and ?rs0.0 = start]
    run_aborts_on_empty_discovery_only [where
      env = "env_for ''mtg'' [an_adapter ''scryfall-api''
        (Inr [\<lparr>si_id = ''MKM'', si_name = ''Murders at Karlov Manor'', si_category = ''expansion''\<rparr>])
        (Inr [a_card ''c1'' ''Card'' ''scryfall-api''])]"
      and discovered =
        "[\<lparr>si_id = ''MKM'', si_name = ''Murders at Karlov Manor'', si_category = ''expansion''\<rparr>]"
      and set_filter = "Some [''XXX'']" and f = "''XXX''" and fs = "[]" and force = True
      and ?rs0.0 = start and st = ScrapeState_init]
  by (simp add: env_for_def config_for_def an_adapter_def start_def discover_sets_def
      dict_values_def filter_ids_of_def say_def force_reset_def get_manifest_generators_def
      get_state_def)

end
